theory Spec2Isabelle
  imports Main "HOL-Library.Word"
begin

unbundle bit_operations_syntax

section \<open>Values shared by the whole program\<close>

text \<open>
  The program is one Python module, \<^verbatim>\<open>example.py\<close>. Python integers are unbounded and are
  modelled as \<open>int\<close>; \<^verbatim>\<open>bytes\<close> objects are lists of numbers below 256.

  Python strings come in two kinds here. Free text handed in by the caller (a message, a
  metadata value, a metadata key) is encoded to UTF-8 by the program, so it is modelled as
  the list of its Unicode code points (\<open>str\<close>). Protocol strings (network names, URLs,
  JSON fields holding numbers, printed lines) are modelled as \<open>string\<close>, whose characters
  are the code points below 256.
\<close>

type_synonym bytes = "nat list"
type_synonym str = "nat list"

text \<open>
  Every exception the program can raise is a value. \<open>Exception\<close> is Python's base class
  with its message, which is what the three \<^verbatim>\<open>raise\<close> statements of the module use. The
  others are raised inside the operations the module calls: the named ones by the built-in
  operations and the value classes, \<open>LibraryError\<close> by a call into the \<^verbatim>\<open>symbolchain\<close> or
  \<^verbatim>\<open>requests\<close> library, with a description of what was raised there.
\<close>

datatype error =
    Exception string
  | UnicodeEncodeError
  | UnicodeDecodeError
  | OverflowError
  | ValueError
  | JSONDecodeError
  | KeyError string
  | TypeError
  | AttributeError
  | LibraryError string

definition text_of :: "string \<Rightarrow> str" where
  "text_of s = map of_char s"

section \<open>\<^verbatim>\<open>str.encode("utf8")\<close> and \<^verbatim>\<open>bytes.decode("utf8")\<close>\<close>

definition is_surrogate :: "nat \<Rightarrow> bool" where
  "is_surrogate c \<longleftrightarrow> 0xD800 \<le> c \<and> c \<le> 0xDFFF"

text \<open>
  A Python string holds code points up to \<open>0x10FFFF\<close>, lone surrogates included; the
  encoder refuses a surrogate with \<^verbatim>\<open>UnicodeEncodeError\<close>. A number from \<open>0x110000\<close> on is
  no code point at all; the encoder of the model refuses it too.
\<close>

definition encode_code_point :: "nat \<Rightarrow> error + bytes" where
  "encode_code_point c =
    (if c < 0x80 then Inr [c]
     else if c < 0x800 then Inr [0xC0 + c div 64, 0x80 + c mod 64]
     else if c < 0x10000 then
       (if is_surrogate c then Inl UnicodeEncodeError
        else Inr [0xE0 + c div 4096, 0x80 + (c div 64) mod 64, 0x80 + c mod 64])
     else if c < 0x110000 then
       Inr [0xF0 + c div 262144, 0x80 + (c div 4096) mod 64, 0x80 + (c div 64) mod 64,
            0x80 + c mod 64]
     else Inl UnicodeEncodeError)"

fun encode_utf8 :: "str \<Rightarrow> error + bytes" where
  "encode_utf8 [] = Inr []"
| "encode_utf8 (c # cs) =
    (case encode_code_point c of
       Inl e \<Rightarrow> Inl e
     | Inr bs \<Rightarrow> (case encode_utf8 cs of Inl e \<Rightarrow> Inl e | Inr rest \<Rightarrow> Inr (bs @ rest)))"

definition is_continuation :: "nat \<Rightarrow> bool" where
  "is_continuation b \<longleftrightarrow> 0x80 \<le> b \<and> b < 0xC0"

definition prepend_code_point :: "nat \<Rightarrow> error + str \<Rightarrow> error + str" where
  "prepend_code_point c r = (case r of Inl e \<Rightarrow> Inl e | Inr t \<Rightarrow> Inr (c # t))"

text \<open>
  The strict decoder: the program itself never decodes, the decoder is what a reader of the
  message bytes runs. It refuses stray continuation bytes, truncated sequences, overlong
  forms, surrogates and values from \<open>0x110000\<close> on.
\<close>

fun decode_utf8 :: "bytes \<Rightarrow> error + str" where
  "decode_utf8 [] = Inr []"
| "decode_utf8 (b # bs) =
    (if b < 0x80 then prepend_code_point b (decode_utf8 bs)
     else if b < 0xC0 then Inl UnicodeDecodeError
     else if b < 0xE0 then
       (case bs of
          b1 # r \<Rightarrow>
            (let c = (b - 0xC0) * 64 + (b1 - 0x80)
             in if is_continuation b1 \<and> 0x80 \<le> c
                then prepend_code_point c (decode_utf8 r) else Inl UnicodeDecodeError)
        | _ \<Rightarrow> Inl UnicodeDecodeError)
     else if b < 0xF0 then
       (case bs of
          b1 # b2 # r \<Rightarrow>
            (let c = (b - 0xE0) * 4096 + (b1 - 0x80) * 64 + (b2 - 0x80)
             in if is_continuation b1 \<and> is_continuation b2 \<and> 0x800 \<le> c \<and> \<not> is_surrogate c
                then prepend_code_point c (decode_utf8 r) else Inl UnicodeDecodeError)
        | _ \<Rightarrow> Inl UnicodeDecodeError)
     else if b < 0xF8 then
       (case bs of
          b1 # b2 # b3 # r \<Rightarrow>
            (let c = (b - 0xF0) * 262144 + (b1 - 0x80) * 4096 + (b2 - 0x80) * 64 + (b3 - 0x80)
             in if is_continuation b1 \<and> is_continuation b2 \<and> is_continuation b3
                   \<and> 0x10000 \<le> c \<and> c < 0x110000
                then prepend_code_point c (decode_utf8 r) else Inl UnicodeDecodeError)
        | _ \<Rightarrow> Inl UnicodeDecodeError)
     else Inl UnicodeDecodeError)"

text \<open>The UTF-8 encoding of a text that has one.\<close>

definition utf8 :: "str \<Rightarrow> bytes" where
  "utf8 s = (case encode_utf8 s of Inl e \<Rightarrow> [] | Inr bs \<Rightarrow> bs)"

text \<open>Text that UTF-8 can carry: every code point is a Unicode scalar value.\<close>

definition scalar_value :: "nat \<Rightarrow> bool" where
  "scalar_value c \<longleftrightarrow> c < 0x110000 \<and> \<not> is_surrogate c"

definition encodable :: "str \<Rightarrow> bool" where
  "encodable s \<longleftrightarrow> list_all scalar_value s"

text \<open>
  \<^verbatim>\<open>bytes(1) + message.encode("utf8")\<close>: the expression the transfer, the embedded transfer
  and the metadata builders all use for the message or value.
\<close>

definition plain_message :: "str \<Rightarrow> error + bytes" where
  "plain_message message =
    (case encode_utf8 message of Inl e \<Rightarrow> Inl e | Inr bs \<Rightarrow> Inr (replicate 1 0 @ bs))"

section \<open>SHA3-256, as \<^verbatim>\<open>sha3.sha3_256\<close> computes it\<close>

text \<open>
  The digest of the \<^verbatim>\<open>sha3\<close> package is SHA3-256 of FIPS 202: the Keccak-f[1600]
  permutation on 25 lanes of 64 bits (lane \<open>(x, y)\<close> at index \<open>x + 5 * y\<close>), rate 136 bytes,
  domain byte \<open>0x06\<close>, 32 bytes of output.
\<close>

type_synonym lane = "64 word"

definition round_constants :: "lane list" where
  "round_constants =
    [0x0000000000000001, 0x0000000000008082, 0x800000000000808A, 0x8000000080008000,
     0x000000000000808B, 0x0000000080000001, 0x8000000080008081, 0x8000000000008009,
     0x000000000000008A, 0x0000000000000088, 0x0000000080008009, 0x000000008000000A,
     0x000000008000808B, 0x800000000000008B, 0x8000000000008089, 0x8000000000008003,
     0x8000000000008002, 0x8000000000000080, 0x000000000000800A, 0x800000008000000A,
     0x8000000080008081, 0x8000000000008080, 0x0000000080000001, 0x8000000080008008]"

definition rotation_offsets :: "nat list list" where
  "rotation_offsets =
    [[0, 36, 3, 41, 18], [1, 44, 10, 45, 2], [62, 6, 43, 15, 61],
     [28, 55, 25, 21, 56], [27, 20, 39, 8, 14]]"

definition rotl64 :: "lane \<Rightarrow> nat \<Rightarrow> lane" where
  "rotl64 w n = (push_bit n w) OR (drop_bit (64 - n) w)"

definition column_parity :: "lane list \<Rightarrow> lane list" where
  "column_parity st =
    map (\<lambda>x. st ! x XOR st ! (x + 5) XOR st ! (x + 10) XOR st ! (x + 15) XOR st ! (x + 20))
      [0..<5]"

definition theta_effect :: "lane list \<Rightarrow> lane list" where
  "theta_effect C = map (\<lambda>x. C ! ((x + 4) mod 5) XOR rotl64 (C ! ((x + 1) mod 5)) 1) [0..<5]"

definition apply_theta :: "lane list \<Rightarrow> lane list \<Rightarrow> lane list" where
  "apply_theta D st = map (\<lambda>i. st ! i XOR D ! (i mod 5)) [0..<25]"

definition theta :: "lane list \<Rightarrow> lane list" where
  "theta st = apply_theta (theta_effect (column_parity st)) st"

definition rho_pi :: "lane list \<Rightarrow> lane list" where
  "rho_pi st =
    map (\<lambda>i. let X = i mod 5; Y = i div 5; x = (X + 3 * Y) mod 5; y = X
              in rotl64 (st ! (x + 5 * y)) (rotation_offsets ! x ! y)) [0..<25]"

definition chi :: "lane list \<Rightarrow> lane list" where
  "chi B =
    map (\<lambda>i. B ! i XOR (NOT (B ! ((i mod 5 + 1) mod 5 + 5 * (i div 5)))
                         AND B ! ((i mod 5 + 2) mod 5 + 5 * (i div 5)))) [0..<25]"

definition iota :: "lane \<Rightarrow> lane list \<Rightarrow> lane list" where
  "iota rc st = (st ! 0 XOR rc) # tl st"

definition keccak_round :: "lane list \<Rightarrow> lane \<Rightarrow> lane list" where
  "keccak_round st rc = iota rc (chi (rho_pi (theta st)))"

definition keccak_f :: "lane list \<Rightarrow> lane list" where
  "keccak_f st = foldl keccak_round st round_constants"

text \<open>\<^verbatim>\<open>int.from_bytes(bs, "little")\<close>.\<close>

fun from_bytes_little :: "bytes \<Rightarrow> nat" where
  "from_bytes_little [] = 0"
| "from_bytes_little (b # bs) = b + 256 * from_bytes_little bs"

definition pad10x1 :: "bytes \<Rightarrow> bytes" where
  "pad10x1 m =
    (let q = 136 - length m mod 136
     in m @ (if q = 1 then [0x86] else [0x06] @ replicate (q - 2) 0 @ [0x80]))"

definition absorb_block :: "lane list \<Rightarrow> bytes \<Rightarrow> lane list" where
  "absorb_block st blk =
    keccak_f (map (\<lambda>i. if i < 17
                        then st ! i XOR of_nat (from_bytes_little (take 8 (drop (8 * i) blk)))
                        else st ! i) [0..<25])"

function absorb :: "lane list \<Rightarrow> bytes \<Rightarrow> lane list" where
  "absorb st p = (if p = [] then st else absorb (absorb_block st (take 136 p)) (drop 136 p))"
  by pat_completeness auto
termination
  by (relation "measure (\<lambda>(st, p). length p)") auto

declare absorb.simps [simp del]

definition lane_to_bytes :: "lane \<Rightarrow> bytes" where
  "lane_to_bytes w = map (\<lambda>i. (unat w div 256 ^ i) mod 256) [0..<8]"

definition sha3_256 :: "bytes \<Rightarrow> bytes" where
  "sha3_256 m = concat (map lane_to_bytes (take 4 (absorb (replicate 25 0) (pad10x1 m))))"

section \<open>\<^verbatim>\<open>KeyGenerator\<close>\<close>

text \<open>
  \<^verbatim>\<open>input.encode()\<close> is UTF-8; \<^verbatim>\<open>digest[0:8]\<close> is the first eight bytes of the digest.
\<close>

definition generate_uint64_key :: "str \<Rightarrow> error + int" where
  "generate_uint64_key input =
    (case encode_utf8 input of
       Inl e \<Rightarrow> Inl e
     | Inr data \<Rightarrow>
         (let digest = sha3_256 data;
              result = int (from_bytes_little (take 8 digest))
          in Inr result))"

section \<open>The clock and the local time zone\<close>

text \<open>
  The program reads the wall clock through \<^verbatim>\<open>datetime\<close>, whose resolution is one
  microsecond. A clock reading is the number of microseconds since the Unix epoch.

  \<^verbatim>\<open>datetime.today()\<close> and \<^verbatim>\<open>datetime.now()\<close> are naive local times. A naive time is kept as
  its count of wall-clock seconds since 1970-01-01 00:00:00 on the same wall clock, next to its
  microsecond. The time zone of the host is the function \<open>localtime\<close> from the seconds since
  the epoch to the wall-clock seconds there, and \<open>c_mktime\<close> is \<^verbatim>\<open>time.mktime\<close> of the C
  library, from wall-clock seconds back to seconds since the epoch, \<open>None\<close> where it raises.
\<close>

type_synonym instant = int

record host =
  localtime :: "int \<Rightarrow> int"
  c_mktime :: "int \<Rightarrow> int option"

text \<open>The first and the last second that \<^verbatim>\<open>datetime\<close> has: years 1 to 9999.\<close>

definition datetime_min :: int where
  "datetime_min = - 62135596800"

definition datetime_max :: int where
  "datetime_max = 253402300799"

text \<open>
  \<^verbatim>\<open>datetime.today()\<close> at the reading \<open>now\<close>: wall-clock seconds and microsecond. A reading
  outside the years of \<^verbatim>\<open>datetime\<close> is refused.
\<close>

definition today :: "host \<Rightarrow> instant \<Rightarrow> error + int \<times> int" where
  "today h now =
    (let wall = localtime h (now div 1000000)
     in if datetime_min \<le> wall \<and> wall \<le> datetime_max
        then Inr (wall, now mod 1000000) else Inl ValueError)"

text \<open>
  \<^verbatim>\<open>d + datetime.timedelta(hours=n)\<close> on the wall-clock seconds of \<open>d\<close>; the microsecond
  stays. Both the \<^verbatim>\<open>timedelta\<close> and the sum raise \<^verbatim>\<open>OverflowError\<close> out of range, and a
  \<^verbatim>\<open>timedelta\<close> out of range takes the sum out of range.
\<close>

definition add_hours :: "int \<Rightarrow> int \<Rightarrow> error + int" where
  "add_hours wall n =
    (if datetime_min \<le> wall + n * 3600 \<and> wall + n * 3600 \<le> datetime_max
     then Inr (wall + n * 3600) else Inl OverflowError)"

text \<open>
  The seconds since the epoch of a naive time, as \<^verbatim>\<open>timestamp()\<close> finds them: a solution
  \<open>u\<close> of \<open>local u = t\<close>, the earlier one where the wall clock shows \<open>t\<close> twice (the result of
  an addition has \<^verbatim>\<open>fold = 0\<close>), and a time moved by the size of the gap where the wall clock
  skips \<open>t\<close>.
\<close>

definition local_to_seconds :: "(int \<Rightarrow> int) \<Rightarrow> int \<Rightarrow> int" where
  "local_to_seconds local t =
    (let a = local t - t;
         u1 = t - a;
         t1 = local u1;
         b = (if t1 = t then local (u1 - 86400) - (u1 - 86400) else t1 - u1)
     in if t1 = t \<and> a = b then u1
        else
          (let u2 = t - b;
               t2 = local u2
           in if t2 = t then u2 else if t1 = t then u1 else max u1 u2))"

subsection \<open>The float that \<^verbatim>\<open>timestamp()\<close> returns\<close>

text \<open>
  A double is kept as mantissa and exponent, \<open>(m, e)\<close> for \<open>m * 2 ^ e\<close>. The numbers met here
  are far from the ends of the exponent range.
\<close>

type_synonym double = "int \<times> int"

text \<open>The number of binary digits of a positive integer.\<close>

function bit_length :: "int \<Rightarrow> int" where
  "bit_length n = (if n \<le> 0 then 0 else 1 + bit_length (n div 2))"
  by pat_completeness auto
termination
  by (relation "measure nat") auto

declare bit_length.simps [simp del]

text \<open>The integer nearest to \<open>a / b\<close> for \<open>b > 0\<close>, a tie going to the even one.\<close>

definition round_half_even :: "int \<Rightarrow> int \<Rightarrow> int" where
  "round_half_even a b =
    (let d = a div b; m = a mod b
     in if 2 * m < b then d
        else if b < 2 * m then d + 1
        else if even d then d else d + 1)"

text \<open>The largest \<open>e\<close> with \<open>2 ^ e \<le> a / b\<close>, for \<open>a > 0\<close> and \<open>b > 0\<close>.\<close>

definition floor_log2 :: "int \<Rightarrow> int \<Rightarrow> int" where
  "floor_log2 a b =
    (let e0 = bit_length a - bit_length b
     in if (if 0 \<le> e0 then 2 ^ nat e0 * b \<le> a else b \<le> a * 2 ^ nat (- e0))
        then e0 else e0 - 1)"

text \<open>The double nearest to \<open>a / b\<close> for \<open>b > 0\<close>, with 53 bits of mantissa.\<close>

definition nearest_double :: "int \<Rightarrow> int \<Rightarrow> double" where
  "nearest_double a b =
    (if a = 0 then (0, 0)
     else
       (let k = 52 - floor_log2 \<bar>a\<bar> b;
            m = (if 0 \<le> k then round_half_even (\<bar>a\<bar> * 2 ^ nat k) b
                 else round_half_even \<bar>a\<bar> (b * 2 ^ nat (- k)))
        in (sgn a * m, - k)))"

text \<open>The double sum of the integer \<open>s\<close> (itself a double) and a double.\<close>

definition double_add_int :: "int \<Rightarrow> double \<Rightarrow> double" where
  "double_add_int s x =
    (case x of (m, e) \<Rightarrow>
       if 0 \<le> e then nearest_double (s + m * 2 ^ nat e) 1
       else nearest_double (s * 2 ^ nat (- e) + m) (2 ^ nat (- e)))"

text \<open>\<^verbatim>\<open>int(x)\<close> for a float: towards zero.\<close>

definition int_of_double :: "double \<Rightarrow> int" where
  "int_of_double x =
    (case x of (m, e) \<Rightarrow>
       if 0 \<le> e then m * 2 ^ nat e
       else if 0 \<le> m then m div 2 ^ nat (- e)
       else - ((- m) div 2 ^ nat (- e)))"

text \<open>
  \<^verbatim>\<open>timestamp()\<close> of the naive time with wall-clock seconds \<open>wall\<close> and the given microsecond:
  the seconds since the epoch plus \<^verbatim>\<open>microsecond / 1e6\<close>, in floating point.
\<close>

definition timestamp :: "(int \<Rightarrow> int) \<Rightarrow> int \<Rightarrow> int \<Rightarrow> double" where
  "timestamp local wall microsecond =
    double_add_int (local_to_seconds local wall) (nearest_double microsecond 1000000)"

section \<open>\<^verbatim>\<open>NonceGenerator\<close>\<close>

text \<open>
  \<^verbatim>\<open>int(time.mktime(datetime.datetime.now().timetuple()))\<close>: the time tuple has no
  microseconds, and \<^verbatim>\<open>time.mktime\<close> returns a whole number as a float.
\<close>

definition NonceGenerator_generate :: "host \<Rightarrow> instant \<Rightarrow> error + int" where
  "NonceGenerator_generate h now =
    (case today h now of
       Inl e \<Rightarrow> Inl e
     | Inr (wall, microsecond) \<Rightarrow>
         (case c_mktime h wall of None \<Rightarrow> Inl OverflowError | Some t \<Rightarrow> Inr t))"

section \<open>Built-in conversions between strings and integers\<close>

definition digit_char :: "nat \<Rightarrow> char" where
  "digit_char n = ''0123456789'' ! n"

function str_nat :: "nat \<Rightarrow> string" where
  "str_nat n = (if n < 10 then [digit_char n] else str_nat (n div 10) @ [digit_char (n mod 10)])"
  by pat_completeness auto
termination
  by (relation "measure (\<lambda>n. n)") auto

declare str_nat.simps [simp del]

text \<open>\<^verbatim>\<open>str(i)\<close> and \<^verbatim>\<open>"{}".format(i)\<close> for an integer.\<close>

definition str_int :: "int \<Rightarrow> string" where
  "str_int i = (if i < 0 then CHR ''-'' # str_nat (nat (- i)) else str_nat (nat i))"

text \<open>
  \<^verbatim>\<open>int(s)\<close> and \<^verbatim>\<open>int(s, 16)\<close>: white space around the number, an optional sign, for base 16
  an optional \<^verbatim>\<open>0x\<close>, then digits, where single underscores may separate digits. Anything
  else is a \<^verbatim>\<open>ValueError\<close>.
\<close>

definition is_space :: "char \<Rightarrow> bool" where
  "is_space c \<longleftrightarrow> (of_char c :: nat) \<in> {9, 10, 11, 12, 13, 32, 133, 160}"

definition digit_value :: "char \<Rightarrow> nat option" where
  "digit_value c =
    (let n = (of_char c :: nat)
     in if 48 \<le> n \<and> n \<le> 57 then Some (n - 48)
        else if 97 \<le> n \<and> n \<le> 122 then Some (n - 87)
        else if 65 \<le> n \<and> n \<le> 90 then Some (n - 55)
        else None)"

definition digit_in :: "nat \<Rightarrow> char \<Rightarrow> nat option" where
  "digit_in base c =
    (case digit_value c of None \<Rightarrow> None | Some v \<Rightarrow> if v < base then Some v else None)"

fun parse_digits :: "nat \<Rightarrow> nat \<Rightarrow> string \<Rightarrow> nat option" where
  "parse_digits base acc [] = Some acc"
| "parse_digits base acc (c # cs) =
    (if c = CHR ''_'' then
       (case cs of
          [] \<Rightarrow> None
        | d # ds \<Rightarrow>
            (case digit_in base d of
               None \<Rightarrow> None
             | Some v \<Rightarrow> parse_digits base (acc * base + v) ds))
     else
       (case digit_in base c of
          None \<Rightarrow> None
        | Some v \<Rightarrow> parse_digits base (acc * base + v) cs))"

definition parse_number :: "nat \<Rightarrow> string \<Rightarrow> nat option" where
  "parse_number base s =
    (case s of
       [] \<Rightarrow> None
     | c # cs \<Rightarrow> (case digit_in base c of None \<Rightarrow> None | Some v \<Rightarrow> parse_digits base v cs))"

definition strip_prefix :: "nat \<Rightarrow> string \<Rightarrow> string" where
  "strip_prefix base s =
    (if base = 16 \<and> (take 2 s = ''0x'' \<or> take 2 s = ''0X'')
     then (case drop 2 s of c # r \<Rightarrow> if c = CHR ''_'' then r else c # r | [] \<Rightarrow> [])
     else s)"

definition py_int :: "nat \<Rightarrow> string \<Rightarrow> error + int" where
  "py_int base s =
    (let s1 = rev (dropWhile is_space (rev (dropWhile is_space s)));
         negative = (take 1 s1 = ''-'');
         s2 = (if take 1 s1 = ''-'' \<or> take 1 s1 = ''+'' then drop 1 s1 else s1)
     in case parse_number base (strip_prefix base s2) of
          None \<Rightarrow> Inl ValueError
        | Some n \<Rightarrow> Inr (if negative then - int n else int n))"

text \<open>
  A plain number: a string of one or more digits of the base, and the number it writes.
\<close>

definition digits_of :: "nat \<Rightarrow> string \<Rightarrow> bool" where
  "digits_of base ds \<longleftrightarrow> ds \<noteq> [] \<and> list_all (\<lambda>c. digit_in base c \<noteq> None) ds"

definition number_of :: "nat \<Rightarrow> string \<Rightarrow> nat" where
  "number_of base ds =
    foldl (\<lambda>acc c. acc * base + (case digit_value c of None \<Rightarrow> 0 | Some v \<Rightarrow> v)) 0 ds"

text \<open>\<^verbatim>\<open>s.replace(c, "")\<close> for a one-character \<open>c\<close>: every occurrence goes.\<close>

definition replace_by_empty :: "char \<Rightarrow> string \<Rightarrow> string" where
  "replace_by_empty c s = filter (\<lambda>x. x \<noteq> c) s"

section \<open>\<^verbatim>\<open>CatapultRESTAPI\<close>\<close>

text \<open>
  What \<^verbatim>\<open>json.loads\<close> returns. An object is a Python dict, kept as the list of its items
  (a key occurs once). \<open>JFloat\<close> stands for any number with a fraction or an exponent; the
  program treats it like any other value that is neither a dict nor a string.
\<close>

datatype json =
    JObject "(string \<times> json) list"
  | JArray "json list"
  | JString string
  | JNumber int
  | JFloat
  | JBool bool
  | JNull

text \<open>The two attributes of a \<^verbatim>\<open>requests\<close> response that the program reads.\<close>

record response =
  status_code :: int
  response_text :: string

datatype CatapultRESTAPI = CatapultRESTAPI (api_node_url: string)

text \<open>
  A call into a library returns, or raises something of the library's own; the model of
  the call gives the description of what was raised on the left.
\<close>

definition library :: "string + 'a \<Rightarrow> error + 'a" where
  "library r = (case r of Inl what \<Rightarrow> Inl (LibraryError what) | Inr x \<Rightarrow> Inr x)"

text \<open>\<^verbatim>\<open>obj[key]\<close> with a string key: only a dict can answer.\<close>

definition subscript :: "json \<Rightarrow> string \<Rightarrow> error + json" where
  "subscript obj key =
    (case obj of
       JObject items \<Rightarrow> (case map_of items key of None \<Rightarrow> Inl (KeyError key) | Some v \<Rightarrow> Inr v)
     | _ \<Rightarrow> Inl TypeError)"

text \<open>\<^verbatim>\<open>obj.replace(c, "")\<close>: only a string has the method.\<close>

definition json_replace_by_empty :: "char \<Rightarrow> json \<Rightarrow> error + string" where
  "json_replace_by_empty c obj =
    (case obj of JString s \<Rightarrow> Inr (replace_by_empty c s) | _ \<Rightarrow> Inl AttributeError)"

text \<open>
  The node is reached through \<open>requests_get\<close>, from the URL to the response or to what
  \<^verbatim>\<open>requests\<close> raised (no connection, for one). \<open>json_loads\<close> is the JSON parser of the standard
  library, \<open>None\<close> where it raises \<^verbatim>\<open>JSONDecodeError\<close>.
\<close>

definition get_epoch_adjustment ::
  "(string \<Rightarrow> string + response) \<Rightarrow> (string \<Rightarrow> json option) \<Rightarrow> CatapultRESTAPI
    \<Rightarrow> error + int" where
  "get_epoch_adjustment requests_get json_loads self =
    (let url = api_node_url self @ ''/network/properties''
     in case library (requests_get url) of
          Inl e \<Rightarrow> Inl e
        | Inr response \<Rightarrow>
            if status_code response \<noteq> 200
            then Inl (Exception (''status code is '' @ str_int (status_code response)))
            else
              (case json_loads (response_text response) of
                 None \<Rightarrow> Inl JSONDecodeError
               | Some contents \<Rightarrow>
                   (case subscript contents ''network'' of
                      Inl e \<Rightarrow> Inl e
                    | Inr network \<Rightarrow>
                        (case subscript network ''epochAdjustment'' of
                           Inl e \<Rightarrow> Inl e
                         | Inr field \<Rightarrow>
                             (case json_replace_by_empty CHR ''s'' field of
                                Inl e \<Rightarrow> Inl e
                              | Inr digits \<Rightarrow> py_int 10 digits)))))"

definition get_currency_mosaic_id ::
  "(string \<Rightarrow> string + response) \<Rightarrow> (string \<Rightarrow> json option) \<Rightarrow> CatapultRESTAPI
    \<Rightarrow> error + int" where
  "get_currency_mosaic_id requests_get json_loads self =
    (let url = api_node_url self @ ''/network/properties''
     in case library (requests_get url) of
          Inl e \<Rightarrow> Inl e
        | Inr response \<Rightarrow>
            if status_code response \<noteq> 200
            then Inl (Exception (''status code is '' @ str_int (status_code response)))
            else
              (case json_loads (response_text response) of
                 None \<Rightarrow> Inl JSONDecodeError
               | Some contents \<Rightarrow>
                   (case subscript contents ''chain'' of
                      Inl e \<Rightarrow> Inl e
                    | Inr chain \<Rightarrow>
                        (case subscript chain ''currencyMosaicId'' of
                           Inl e \<Rightarrow> Inl e
                         | Inr field \<Rightarrow>
                             (case json_replace_by_empty (CHR 0x27) field of
                                Inl e \<Rightarrow> Inl e
                              | Inr digits \<Rightarrow> py_int 16 digits)))))"

section \<open>What the \<^verbatim>\<open>symbolchain\<close> library provides\<close>

text \<open>
  Keys, signatures and hashes are the library's fixed-width byte strings.
\<close>

type_synonym PublicKey = "256 word"
type_synonym PrivateKey = "256 word"
type_synonym Signature = "512 word"
type_synonym Hash256 = "256 word"
type_synonym Address = string

text \<open>One entry of \<^verbatim>\<open>mosaics: List[dict]\<close>, a dict from field name to integer.\<close>

type_synonym mosaic = "(string \<times> int) list"

record KeyPair =
  private_key :: PrivateKey
  public_key :: PublicKey

text \<open>
  The value classes \<^verbatim>\<open>Amount\<close>, \<^verbatim>\<open>BlockDuration\<close> (8 bytes) and \<^verbatim>\<open>MosaicNonce\<close> (4 bytes) keep
  an unsigned integer of their size and raise \<^verbatim>\<open>ValueError\<close> for any other.
\<close>

definition BaseValue :: "nat \<Rightarrow> int \<Rightarrow> error + int" where
  "BaseValue width v = (if 0 \<le> v \<and> v < 2 ^ (8 * width) then Inr v else Inl ValueError)"

definition Amount :: "int \<Rightarrow> error + int" where
  "Amount v = BaseValue 8 v"

definition BlockDuration :: "int \<Rightarrow> error + int" where
  "BlockDuration v = BaseValue 8 v"

definition MosaicNonce :: "int \<Rightarrow> error + int" where
  "MosaicNonce v = BaseValue 4 v"

text \<open>
  \<^verbatim>\<open>MosaicFlags\<close> is the library's 8-bit flag enumeration, with the values of the Symbol
  protocol.
\<close>

definition MosaicFlags_NONE :: "8 word" where
  "MosaicFlags_NONE = 0"

definition MosaicFlags_SUPPLY_MUTABLE :: "8 word" where
  "MosaicFlags_SUPPLY_MUTABLE = 1"

definition MosaicFlags_TRANSFERABLE :: "8 word" where
  "MosaicFlags_TRANSFERABLE = 2"

definition MosaicFlags_RESTRICTABLE :: "8 word" where
  "MosaicFlags_RESTRICTABLE = 4"

definition MosaicFlags_REVOKABLE :: "8 word" where
  "MosaicFlags_REVOKABLE = 8"

datatype MosaicSupplyChangeAction = DECREASE | INCREASE

text \<open>
  The descriptors the program hands to \<^verbatim>\<open>transaction_factory.create_embedded\<close>: the
  constructor is the \<^verbatim>\<open>type\<close> entry of the dict, the arguments are the other entries.
\<close>

datatype EmbeddedTransaction =
    is_EmbeddedTransferTransaction: EmbeddedTransferTransaction
      (embedded_signer_public_key: PublicKey)
      (embedded_recipient_address: Address)
      (embedded_mosaics: "mosaic list")
      (embedded_message: bytes)
  | is_EmbeddedMosaicMetadataTransaction: EmbeddedMosaicMetadataTransaction
      (embedded_signer_public_key: PublicKey)
      (embedded_target_address: Address)
      (embedded_target_mosaic_id: int)
      (embedded_scoped_metadata_key: int)
      (embedded_value: bytes)
      (embedded_value_size_delta: int)

text \<open>
  The descriptors handed to \<^verbatim>\<open>transaction_factory.create\<close>. The embedded transactions of
  an aggregate are the objects \<^verbatim>\<open>create_embedded\<close> returned, of the library's type \<open>'etx\<close>.
  \<open>MosaicMetadataTransaction\<close> is the descriptor of a metadata transaction that is not
  wrapped; the program has no use of it.
\<close>

datatype 'etx Transaction =
    is_TransferTransaction: TransferTransaction
      (signer_public_key: PublicKey)
      (deadline: int)
      (fee: int)
      (recipient_address: Address)
      (mosaics: "mosaic list")
      (message: bytes)
  | is_AggregateCompleteTransaction: AggregateCompleteTransaction
      (signer_public_key: PublicKey)
      (fee: int)
      (deadline: int)
      (transactions_hash: Hash256)
      (transactions: "'etx list")
  | is_MosaicDefinitionTransaction: MosaicDefinitionTransaction
      (signer_public_key: PublicKey)
      (deadline: int)
      (fee: int)
      (duration: int)
      (nonce: int)
      (flags: "8 word")
      (divisibility: int)
  | is_MosaicSupplyChangeTransaction: MosaicSupplyChangeTransaction
      (signer_public_key: PublicKey)
      (deadline: int)
      (fee: int)
      (mosaic_id: int)
      (delta: int)
      (action: MosaicSupplyChangeAction)
  | is_MosaicMetadataTransaction: MosaicMetadataTransaction
      (signer_public_key: PublicKey)
      (deadline: int)
      (fee: int)
      (target_address: Address)
      (target_mosaic_id: int)
      (scoped_metadata_key: int)
      (metadata_value: bytes)
      (value_size_delta: int)

text \<open>
  The facade, with the operations the program calls on it; \<open>'tx\<close> is the library's type
  of transaction objects. Each operation returns or raises. \<open>attach_signature\<close> stores the
  signature in the transaction object and returns the JSON payload, so it gives the payload
  and the object as it is afterwards. \<open>str_of_hash\<close> is \<^verbatim>\<open>str\<close> on a hash.
\<close>

record ('tx, 'etx) SymbolFacade =
  transaction_factory_create :: "'etx Transaction \<Rightarrow> string + 'tx"
  transaction_factory_create_embedded :: "EmbeddedTransaction \<Rightarrow> string + 'etx"
  hash_embedded_transactions :: "'etx list \<Rightarrow> string + Hash256"
  sign_transaction :: "KeyPair \<Rightarrow> 'tx \<Rightarrow> string + Signature"
  attach_signature :: "'tx \<Rightarrow> Signature \<Rightarrow> string + str \<times> 'tx"
  hash_transaction :: "'tx \<Rightarrow> string + Hash256"
  str_of_hash :: "Hash256 \<Rightarrow> string"

section \<open>\<^verbatim>\<open>SymbolTransactionCreator\<close>\<close>

record ('tx, 'etx) SymbolTransactionCreator =
  facade :: "('tx, 'etx) SymbolFacade"
  node_url :: string
  epoch_adjustment :: int
  max_fee :: int
  expiration_hour :: int
  explorer_url :: string

text \<open>
  \<^verbatim>\<open>__init__\<close>. \<open>SymbolFacade_new\<close> is the library's constructor \<^verbatim>\<open>SymbolFacade(network_name)\<close>.
  The attributes are assigned in the order of the source, so the facade constructor and
  \<^verbatim>\<open>Amount(max_fee)\<close> raise before the network name is looked at.
\<close>

definition SymbolTransactionCreator_init ::
  "(string \<Rightarrow> string + ('tx, 'etx) SymbolFacade) \<Rightarrow> string \<Rightarrow> string \<Rightarrow> int \<Rightarrow> int \<Rightarrow> int
    \<Rightarrow> error + ('tx, 'etx) SymbolTransactionCreator" where
  "SymbolTransactionCreator_init SymbolFacade_new network_name node_url' epoch_adjustment' max_fee'
      expiration_hour' =
    (case library (SymbolFacade_new network_name) of
       Inl e \<Rightarrow> Inl e
     | Inr f \<Rightarrow>
         (case Amount max_fee' of
            Inl e \<Rightarrow> Inl e
          | Inr fee' \<Rightarrow>
              (if network_name = ''mainnet'' then
                 Inr \<lparr>facade = f, node_url = node_url', epoch_adjustment = epoch_adjustment',
                      max_fee = fee', expiration_hour = expiration_hour',
                      explorer_url = ''https://symbol.fyi/transactions/''\<rparr>
               else if network_name = ''testnet'' then
                 Inr \<lparr>facade = f, node_url = node_url', epoch_adjustment = epoch_adjustment',
                      max_fee = fee', expiration_hour = expiration_hour',
                      explorer_url = ''https://testnet.symbol.fyi/transactions/''\<rparr>
               else Inl (Exception ''Unknown network name.''))))"

text \<open>
  \<^verbatim>\<open>_get_deadline\<close>, on the host \<open>h\<close> at the clock reading \<open>now\<close>: the hours are added to
  the naive local time, and the sum is read back as a time of the local zone.
\<close>

definition get_deadline ::
  "('tx, 'etx) SymbolTransactionCreator \<Rightarrow> host \<Rightarrow> instant \<Rightarrow> error + int" where
  "get_deadline self h now =
    (case today h now of
       Inl e \<Rightarrow> Inl e
     | Inr (wall, microsecond) \<Rightarrow>
         (case add_hours wall (expiration_hour self) of
            Inl e \<Rightarrow> Inl e
          | Inr wall' \<Rightarrow>
              Inr ((int_of_double (timestamp (localtime h) wall' microsecond)
                    - epoch_adjustment self) * 1000)))"

text \<open>
  Each \<^verbatim>\<open>create_*\<close> method evaluates a dict, the descriptor, and hands it to the factory.
  The descriptor comes first, as its own function; the entries are evaluated in the order
  of the source.
\<close>

definition transfer_transaction_descriptor ::
  "('tx, 'etx) SymbolTransactionCreator \<Rightarrow> host \<Rightarrow> instant \<Rightarrow> PublicKey \<Rightarrow> Address
    \<Rightarrow> mosaic list \<Rightarrow> str \<Rightarrow> error + 'etx Transaction" where
  "transfer_transaction_descriptor self h now signer recipient mosaics' message' =
    (case get_deadline self h now of
       Inl e \<Rightarrow> Inl e
     | Inr deadline' \<Rightarrow>
         (case plain_message message' of
            Inl e \<Rightarrow> Inl e
          | Inr m \<Rightarrow>
              Inr (TransferTransaction signer deadline' (max_fee self) recipient mosaics' m)))"

definition create_transfer_transaction ::
  "('tx, 'etx) SymbolTransactionCreator \<Rightarrow> host \<Rightarrow> instant \<Rightarrow> PublicKey \<Rightarrow> Address
    \<Rightarrow> mosaic list \<Rightarrow> str \<Rightarrow> error + 'tx" where
  "create_transfer_transaction self h now signer recipient mosaics' message' =
    (case transfer_transaction_descriptor self h now signer recipient mosaics' message' of
       Inl e \<Rightarrow> Inl e
     | Inr descriptor \<Rightarrow> library (transaction_factory_create (facade self) descriptor))"

text \<open>The descriptor of one embedded transfer, and the loop over \<^verbatim>\<open>messages\<close>.\<close>

definition embedded_transfer_descriptor ::
  "PublicKey \<Rightarrow> Address \<Rightarrow> mosaic list \<Rightarrow> str \<Rightarrow> error + EmbeddedTransaction" where
  "embedded_transfer_descriptor signer recipient mosaics' message' =
    (case plain_message message' of
       Inl e \<Rightarrow> Inl e
     | Inr m \<Rightarrow> Inr (EmbeddedTransferTransaction signer recipient mosaics' m))"

fun inner_transfer_transactions ::
  "('tx, 'etx) SymbolFacade \<Rightarrow> PublicKey \<Rightarrow> Address \<Rightarrow> mosaic list \<Rightarrow> str list \<Rightarrow> 'etx list
    \<Rightarrow> error + 'etx list" where
  "inner_transfer_transactions f signer recipient mosaics' [] inner_txs = Inr inner_txs"
| "inner_transfer_transactions f signer recipient mosaics' (message' # rest) inner_txs =
    (case embedded_transfer_descriptor signer recipient mosaics' message' of
       Inl e \<Rightarrow> Inl e
     | Inr descriptor \<Rightarrow>
         (case library (transaction_factory_create_embedded f descriptor) of
            Inl e \<Rightarrow> Inl e
          | Inr inner_tx \<Rightarrow>
              inner_transfer_transactions f signer recipient mosaics' rest
                (inner_txs @ [inner_tx])))"

definition aggregate_transfer_descriptor ::
  "('tx, 'etx) SymbolTransactionCreator \<Rightarrow> host \<Rightarrow> instant \<Rightarrow> PublicKey \<Rightarrow> Address
    \<Rightarrow> mosaic list \<Rightarrow> str list \<Rightarrow> error + 'etx Transaction" where
  "aggregate_transfer_descriptor self h now signer recipient mosaics' messages =
    (case get_deadline self h now of
       Inl e \<Rightarrow> Inl e
     | Inr deadline' \<Rightarrow>
         (case inner_transfer_transactions (facade self) signer recipient mosaics' messages [] of
            Inl e \<Rightarrow> Inl e
          | Inr inner_txs \<Rightarrow>
              (case library (hash_embedded_transactions (facade self) inner_txs) of
                 Inl e \<Rightarrow> Inl e
               | Inr hash \<Rightarrow>
                   Inr (AggregateCompleteTransaction signer (max_fee self) deadline' hash
                         inner_txs))))"

definition create_aggregate_transfer_transaction ::
  "('tx, 'etx) SymbolTransactionCreator \<Rightarrow> host \<Rightarrow> instant \<Rightarrow> PublicKey \<Rightarrow> Address
    \<Rightarrow> mosaic list \<Rightarrow> str list \<Rightarrow> error + 'tx" where
  "create_aggregate_transfer_transaction self h now signer recipient mosaics' messages =
    (case aggregate_transfer_descriptor self h now signer recipient mosaics' messages of
       Inl e \<Rightarrow> Inl e
     | Inr descriptor \<Rightarrow> library (transaction_factory_create (facade self) descriptor))"

text \<open>
  The four conditional assignments to \<^verbatim>\<open>flags\<close>; \<^verbatim>\<open>a | b if c else a\<close> is
  \<^verbatim>\<open>(a | b) if c else a\<close>.
\<close>

definition mosaic_flags :: "bool \<Rightarrow> bool \<Rightarrow> bool \<Rightarrow> bool \<Rightarrow> 8 word" where
  "mosaic_flags transferable supply_mutable restrictable revokable =
    (let flags0 = MosaicFlags_NONE;
         flags1 = (if transferable then flags0 OR MosaicFlags_TRANSFERABLE else flags0);
         flags2 = (if supply_mutable then flags1 OR MosaicFlags_SUPPLY_MUTABLE else flags1);
         flags3 = (if restrictable then flags2 OR MosaicFlags_RESTRICTABLE else flags2);
         flags4 = (if revokable then flags3 OR MosaicFlags_REVOKABLE else flags3)
     in flags4)"

text \<open>
  The deadline is read at \<open>now\<close>, the nonce later in the same call, at \<open>nonce_now\<close>.
\<close>

definition mosaic_definition_descriptor ::
  "('tx, 'etx) SymbolTransactionCreator \<Rightarrow> host \<Rightarrow> instant \<Rightarrow> instant \<Rightarrow> PublicKey \<Rightarrow> int \<Rightarrow> int
    \<Rightarrow> bool \<Rightarrow> bool \<Rightarrow> bool \<Rightarrow> bool \<Rightarrow> error + 'etx Transaction" where
  "mosaic_definition_descriptor self h now nonce_now signer divisibility' duration'
      transferable supply_mutable restrictable revokable =
    (case get_deadline self h now of
       Inl e \<Rightarrow> Inl e
     | Inr deadline' \<Rightarrow>
         (let flags' = mosaic_flags transferable supply_mutable restrictable revokable
          in case BlockDuration duration' of
               Inl e \<Rightarrow> Inl e
             | Inr block_duration \<Rightarrow>
                 (case NonceGenerator_generate h nonce_now of
                    Inl e \<Rightarrow> Inl e
                  | Inr seconds \<Rightarrow>
                      (case MosaicNonce seconds of
                         Inl e \<Rightarrow> Inl e
                       | Inr nonce' \<Rightarrow>
                           Inr (MosaicDefinitionTransaction signer deadline' (max_fee self)
                                 block_duration nonce' flags' divisibility')))))"

definition create_mosaic_definition_transaction ::
  "('tx, 'etx) SymbolTransactionCreator \<Rightarrow> host \<Rightarrow> instant \<Rightarrow> instant \<Rightarrow> PublicKey \<Rightarrow> int \<Rightarrow> int
    \<Rightarrow> bool \<Rightarrow> bool \<Rightarrow> bool \<Rightarrow> bool \<Rightarrow> error + 'tx" where
  "create_mosaic_definition_transaction self h now nonce_now signer divisibility' duration'
      transferable supply_mutable restrictable revokable =
    (case mosaic_definition_descriptor self h now nonce_now signer divisibility' duration'
            transferable supply_mutable restrictable revokable of
       Inl e \<Rightarrow> Inl e
     | Inr descriptor \<Rightarrow> library (transaction_factory_create (facade self) descriptor))"

definition mosaic_supply_change_descriptor ::
  "('tx, 'etx) SymbolTransactionCreator \<Rightarrow> host \<Rightarrow> instant \<Rightarrow> PublicKey \<Rightarrow> int \<Rightarrow> int
    \<Rightarrow> error + 'etx Transaction" where
  "mosaic_supply_change_descriptor self h now signer mosaic_id' supply_units =
    (case get_deadline self h now of
       Inl e \<Rightarrow> Inl e
     | Inr deadline' \<Rightarrow>
         (case Amount supply_units of
            Inl e \<Rightarrow> Inl e
          | Inr delta' \<Rightarrow>
              Inr (MosaicSupplyChangeTransaction signer deadline' (max_fee self) mosaic_id' delta'
                    INCREASE)))"

definition create_mosaic_supply_change_transaction ::
  "('tx, 'etx) SymbolTransactionCreator \<Rightarrow> host \<Rightarrow> instant \<Rightarrow> PublicKey \<Rightarrow> int \<Rightarrow> int
    \<Rightarrow> error + 'tx" where
  "create_mosaic_supply_change_transaction self h now signer mosaic_id' supply_units =
    (case mosaic_supply_change_descriptor self h now signer mosaic_id' supply_units of
       Inl e \<Rightarrow> Inl e
     | Inr descriptor \<Rightarrow> library (transaction_factory_create (facade self) descriptor))"

text \<open>
  The metadata builder: the descriptor of the embedded metadata transaction, the embedded
  transaction the factory makes of it, and the descriptor of the aggregate around it.
\<close>

definition embedded_mosaic_metadata_descriptor ::
  "PublicKey \<Rightarrow> Address \<Rightarrow> int \<Rightarrow> str \<Rightarrow> str \<Rightarrow> error + EmbeddedTransaction" where
  "embedded_mosaic_metadata_descriptor signer target_address' target_mosaic_id'
      scoped_metadata_key' value' =
    (case generate_uint64_key scoped_metadata_key' of
       Inl e \<Rightarrow> Inl e
     | Inr key \<Rightarrow>
         (case plain_message value' of
            Inl e \<Rightarrow> Inl e
          | Inr v \<Rightarrow>
              Inr (EmbeddedMosaicMetadataTransaction signer target_address' target_mosaic_id' key v
                    (int (length v)))))"

definition mosaic_metadata_descriptor ::
  "('tx, 'etx) SymbolTransactionCreator \<Rightarrow> host \<Rightarrow> instant \<Rightarrow> PublicKey \<Rightarrow> Address \<Rightarrow> int
    \<Rightarrow> str \<Rightarrow> str \<Rightarrow> error + 'etx Transaction" where
  "mosaic_metadata_descriptor self h now signer target_address' target_mosaic_id'
      scoped_metadata_key' value' =
    (case get_deadline self h now of
       Inl e \<Rightarrow> Inl e
     | Inr deadline' \<Rightarrow>
         (case embedded_mosaic_metadata_descriptor signer target_address' target_mosaic_id'
                 scoped_metadata_key' value' of
            Inl e \<Rightarrow> Inl e
          | Inr embedded_descriptor \<Rightarrow>
              (case library (transaction_factory_create_embedded (facade self)
                      embedded_descriptor) of
                 Inl e \<Rightarrow> Inl e
               | Inr tx \<Rightarrow>
                   (case library (hash_embedded_transactions (facade self) [tx]) of
                      Inl e \<Rightarrow> Inl e
                    | Inr hash \<Rightarrow>
                        Inr (AggregateCompleteTransaction signer (max_fee self) deadline' hash
                              [tx])))))"

definition create_mosaic_metadata_transaction ::
  "('tx, 'etx) SymbolTransactionCreator \<Rightarrow> host \<Rightarrow> instant \<Rightarrow> PublicKey \<Rightarrow> Address \<Rightarrow> int
    \<Rightarrow> str \<Rightarrow> str \<Rightarrow> error + 'tx" where
  "create_mosaic_metadata_transaction self h now signer target_address' target_mosaic_id'
      scoped_metadata_key' value' =
    (case mosaic_metadata_descriptor self h now signer target_address' target_mosaic_id'
            scoped_metadata_key' value' of
       Inl e \<Rightarrow> Inl e
     | Inr descriptor \<Rightarrow> library (transaction_factory_create (facade self) descriptor))"

text \<open>
  \<^verbatim>\<open>sign_and_announce_transaction\<close>. The node is reached through \<open>requests_put\<close>, from URL,
  headers and body to the response or to what \<^verbatim>\<open>requests\<close> raised. The result comes with the
  lines printed.
\<close>

definition sign_and_announce_transaction ::
  "(string \<Rightarrow> (string \<times> string) list \<Rightarrow> bytes \<Rightarrow> string + response)
    \<Rightarrow> ('tx, 'etx) SymbolTransactionCreator \<Rightarrow> 'tx \<Rightarrow> KeyPair
    \<Rightarrow> (error + string) \<times> string list" where
  "sign_and_announce_transaction requests_put self transaction key_pair =
    (case library (sign_transaction (facade self) key_pair transaction) of
       Inl e \<Rightarrow> (Inl e, [])
     | Inr signature \<Rightarrow>
         (let url = node_url self @ ''/transactions'';
              http_headers = [(''Content-type'', ''application/json'')]
          in case library (attach_signature (facade self) transaction signature) of
               Inl e \<Rightarrow> (Inl e, [])
             | Inr (json_payload, signed_transaction) \<Rightarrow>
                 (case encode_utf8 json_payload of
                    Inl e \<Rightarrow> (Inl e, [])
                  | Inr payload \<Rightarrow>
                      (case library (hash_transaction (facade self) signed_transaction) of
                         Inl e \<Rightarrow> (Inl e, [])
                       | Inr tx_hash \<Rightarrow>
                           (case library (requests_put url http_headers payload) of
                              Inl e \<Rightarrow> (Inl e, [])
                            | Inr response \<Rightarrow>
                                if status_code response \<noteq> 202
                                then (Inl (Exception (''status code is ''
                                        @ str_int (status_code response))), [])
                                else (Inr (str_of_hash (facade self) tx_hash),
                                      [''tx hash:'' @ str_of_hash (facade self) tx_hash,
                                       ''status code:'' @ str_int (status_code response),
                                       explorer_url self
                                         @ str_of_hash (facade self) tx_hash]))))))"

section \<open>Calls on one builder instance\<close>

text \<open>
  A method call takes the instance and gives it back as the call leaves it, next to what
  the call returned or raised. A \<open>moment\<close> is what the outside world answers during one
  call: the two clock readings and the behaviour of the node.
\<close>

datatype 'tx call =
    Create_transfer PublicKey Address "mosaic list" str
  | Create_aggregate_transfer PublicKey Address "mosaic list" "str list"
  | Create_mosaic_definition PublicKey int int bool bool bool bool
  | Create_mosaic_supply_change PublicKey int int
  | Create_mosaic_metadata PublicKey Address int str str
  | Sign_and_announce 'tx KeyPair

datatype 'tx outcome = Raised error | Built 'tx | Announced string

record moment =
  clock :: instant
  nonce_clock :: instant
  node_put :: "string \<Rightarrow> (string \<times> string) list \<Rightarrow> bytes \<Rightarrow> string + response"

definition built :: "error + 'tx \<Rightarrow> 'tx outcome" where
  "built r = (case r of Inl e \<Rightarrow> Raised e | Inr tx \<Rightarrow> Built tx)"

fun method_call ::
  "('tx, 'etx) SymbolTransactionCreator \<Rightarrow> host \<Rightarrow> moment \<Rightarrow> 'tx call
    \<Rightarrow> 'tx outcome \<times> ('tx, 'etx) SymbolTransactionCreator" where
  "method_call self h w (Create_transfer signer recipient ms msg) =
    (built (create_transfer_transaction self h (clock w) signer recipient ms msg), self)"
| "method_call self h w (Create_aggregate_transfer signer recipient ms msgs) =
    (built (create_aggregate_transfer_transaction self h (clock w) signer recipient ms msgs),
     self)"
| "method_call self h w (Create_mosaic_definition signer dv du t s r v) =
    (built (create_mosaic_definition_transaction self h (clock w) (nonce_clock w) signer dv du
              t s r v),
     self)"
| "method_call self h w (Create_mosaic_supply_change signer mid units) =
    (built (create_mosaic_supply_change_transaction self h (clock w) signer mid units), self)"
| "method_call self h w (Create_mosaic_metadata signer addr mid key val) =
    (built (create_mosaic_metadata_transaction self h (clock w) signer addr mid key val), self)"
| "method_call self h w (Sign_and_announce tx key_pair) =
    ((case fst (sign_and_announce_transaction (node_put w) self tx key_pair) of
        Inl e \<Rightarrow> Raised e
      | Inr hash \<Rightarrow> Announced hash),
     self)"

text \<open>The descriptor a \<^verbatim>\<open>create_*\<close> call evaluates; signing evaluates none.\<close>

fun call_descriptor ::
  "('tx, 'etx) SymbolTransactionCreator \<Rightarrow> host \<Rightarrow> moment \<Rightarrow> 'tx call
    \<Rightarrow> (error + 'etx Transaction) option" where
  "call_descriptor self h w (Create_transfer signer recipient ms msg) =
    Some (transfer_transaction_descriptor self h (clock w) signer recipient ms msg)"
| "call_descriptor self h w (Create_aggregate_transfer signer recipient ms msgs) =
    Some (aggregate_transfer_descriptor self h (clock w) signer recipient ms msgs)"
| "call_descriptor self h w (Create_mosaic_definition signer dv du t s r v) =
    Some (mosaic_definition_descriptor self h (clock w) (nonce_clock w) signer dv du t s r v)"
| "call_descriptor self h w (Create_mosaic_supply_change signer mid units) =
    Some (mosaic_supply_change_descriptor self h (clock w) signer mid units)"
| "call_descriptor self h w (Create_mosaic_metadata signer addr mid key val) =
    Some (mosaic_metadata_descriptor self h (clock w) signer addr mid key val)"
| "call_descriptor self h w (Sign_and_announce tx key_pair) = None"

text \<open>
  A sequence of calls on one instance; a call that raises is caught by the caller, who goes
  on with the next.
\<close>

fun run ::
  "('tx, 'etx) SymbolTransactionCreator \<Rightarrow> host \<Rightarrow> (moment \<times> 'tx call) list
    \<Rightarrow> 'tx outcome list \<times> ('tx, 'etx) SymbolTransactionCreator" where
  "run self h [] = ([], self)"
| "run self h ((w, c) # rest) =
    (let (r, self') = method_call self h w c;
         (rs, self'') = run self' h rest
     in (r # rs, self''))"

section \<open>A host, a library and a builder to run the program on\<close>

text \<open>
  Two time zones: UTC, and the zone of New York with its changes of 2023 and 2024 (five
  hours behind UTC in winter, four in summer).
\<close>

definition utc :: "int \<Rightarrow> int" where
  "utc u = u"

definition new_york :: "int \<Rightarrow> int" where
  "new_york u =
    (if u < 1678604400 then u - 18000
     else if u < 1699164000 then u - 14400
     else if u < 1710054000 then u - 18000
     else if u < 1730613600 then u - 14400
     else u - 18000)"

definition host_in :: "(int \<Rightarrow> int) \<Rightarrow> host" where
  "host_in zone = \<lparr>localtime = zone, c_mktime = (\<lambda>wall. Some (local_to_seconds zone wall))\<rparr>"

text \<open>
  A facade whose factory accepts every descriptor and keeps it as the transaction, and whose
  other operations are simple functions. The theorems hold for every facade; this one is for
  running them.
\<close>

definition hex_char :: "nat \<Rightarrow> char" where
  "hex_char n = ''0123456789ABCDEF'' ! n"

definition str_hash :: "Hash256 \<Rightarrow> string" where
  "str_hash x = map (\<lambda>i. hex_char ((unat x div 16 ^ (63 - i)) mod 16)) [0..<64]"

definition demo_facade ::
  "(EmbeddedTransaction Transaction, EmbeddedTransaction) SymbolFacade" where
  "demo_facade =
    \<lparr>transaction_factory_create = (\<lambda>descriptor. Inr descriptor),
     transaction_factory_create_embedded = (\<lambda>descriptor. Inr descriptor),
     hash_embedded_transactions = (\<lambda>txs. Inr (of_nat (length txs))),
     sign_transaction = (\<lambda>key_pair tx. Inr (ucast (private_key key_pair) + 1)),
     attach_signature = (\<lambda>tx signature. Inr (text_of ''{payload: 00}'', tx)),
     hash_transaction = (\<lambda>tx. Inr 0xABD5),
     str_of_hash = str_hash\<rparr>"

text \<open>
  The builder of the module's main block: test network, epoch adjustment 1637848847, fee
  2000000, two hours.
\<close>

definition demo_creator ::
  "(EmbeddedTransaction Transaction, EmbeddedTransaction) SymbolTransactionCreator" where
  "demo_creator =
    \<lparr>facade = demo_facade, node_url = ''https://node3.xym-harvesting.com:3001'',
     epoch_adjustment = 1637848847, max_fee = 2000000, expiration_hour = 2,
     explorer_url = ''https://testnet.symbol.fyi/transactions/''\<rparr>"

definition demo_key_pair :: KeyPair where
  "demo_key_pair = \<lparr>private_key = 7, public_key = 9\<rparr>"

text \<open>A node that answers every request with the given status.\<close>

definition node_answering ::
  "int \<Rightarrow> string \<Rightarrow> (string \<times> string) list \<Rightarrow> bytes \<Rightarrow> string + response" where
  "node_answering status url headers body = Inr \<lparr>status_code = status, response_text = []\<rparr>"

text \<open>The network properties document of the test network, cut down to the two fields read.\<close>

definition demo_properties :: json where
  "demo_properties =
    JObject
      [(''network'', JObject [(''identifier'', JString ''testnet''),
                              (''epochAdjustment'', JString ''1637848847s'')]),
       (''chain'', JObject [(''currencyMosaicId'',
                             JString (''0x3A84'' @ [CHR 0x27] @ ''16DB'' @ [CHR 0x27] @ ''2D53''
                                       @ [CHR 0x27] @ ''B6C8''))])]"


section \<open>UTF-8: the encoder and the decoder\<close>

lemma encode_code_point_scalar:
  "scalar_value c \<Longrightarrow> \<exists>bs. encode_code_point c = Inr bs"
  by (simp add: scalar_value_def encode_code_point_def)

lemma encode_code_point_refused:
  "\<not> scalar_value c \<Longrightarrow> encode_code_point c = Inl UnicodeEncodeError"
  by (auto simp add: scalar_value_def encode_code_point_def is_surrogate_def)

lemma decode_one_byte:
  "c < 0x80 \<Longrightarrow> decode_utf8 ([c] @ rest) = prepend_code_point c (decode_utf8 rest)"
  by simp

lemma decode_two_bytes:
  assumes "\<not> c < 0x80" "c < 0x800"
  shows "decode_utf8 ([0xC0 + c div 64, 0x80 + c mod 64] @ rest) = prepend_code_point c (decode_utf8 rest)"
proof -
  have "c div 64 < 32" using assms by simp
  moreover have "c mod 64 < 64" by simp
  ultimately show ?thesis using assms
    by (simp add: is_continuation_def Let_def)
qed

lemma shift_six_bits:
  "(a::nat) div 64 * (64 * k) + a mod 64 * k = a * k"
proof -
  have "a div 64 * (64 * k) + a mod 64 * k = (a div 64 * 64 + a mod 64) * k"
    by (simp only: add_mult_distrib mult.assoc)
  also have "\<dots> = a * k" by (simp only: div_mult_mod_eq)
  finally show ?thesis .
qed

lemma split_code_point_3:
  "(c::nat) div 4096 * 4096 + (c div 64) mod 64 * 64 + c mod 64 = c"
proof -
  have "c div 4096 = c div 64 div 64" by (simp add: div_mult2_eq)
  moreover have "c div 64 div 64 * (64 * 64) + (c div 64) mod 64 * 64 = c div 64 * 64"
    by (rule shift_six_bits)
  ultimately have "c div 4096 * 4096 + (c div 64) mod 64 * 64 = c div 64 * 64" by simp
  then show ?thesis by simp
qed

lemma split_code_point_4:
  "(c::nat) div 262144 * 262144 + (c div 4096) mod 64 * 4096 + (c div 64) mod 64 * 64 + c mod 64 = c"
proof -
  have "c div 262144 = c div 4096 div 64" by (simp add: div_mult2_eq)
  moreover have "c div 4096 div 64 * (64 * 4096) + (c div 4096) mod 64 * 4096 = c div 4096 * 4096"
    by (rule shift_six_bits)
  ultimately have "c div 262144 * 262144 + (c div 4096) mod 64 * 4096 = c div 4096 * 4096"
    by simp
  then show ?thesis using split_code_point_3 [of c] by simp
qed

lemma decode_three_bytes:
  assumes "\<not> c < 0x800" "c < 0x10000" "\<not> is_surrogate c"
  shows "decode_utf8 ([0xE0 + c div 4096, 0x80 + (c div 64) mod 64, 0x80 + c mod 64] @ rest)
           = prepend_code_point c (decode_utf8 rest)"
proof -
  have a: "c div 4096 < 16" using assms by simp
  have b: "(c div 64) mod 64 < 64" "c mod 64 < 64" by simp_all
  show ?thesis using assms a b
    by (simp add: is_continuation_def Let_def split_code_point_3)
qed

lemma decode_four_bytes:
  assumes "\<not> c < 0x10000" "c < 0x110000"
  shows "decode_utf8 ([0xF0 + c div 262144, 0x80 + (c div 4096) mod 64, 0x80 + (c div 64) mod 64,
            0x80 + c mod 64] @ rest)
           = prepend_code_point c (decode_utf8 rest)"
proof -
  have a: "c div 262144 < 8" using assms by simp
  have b: "(c div 4096) mod 64 < 64" "(c div 64) mod 64 < 64" "c mod 64 < 64" by simp_all
  show ?thesis using assms a b
    by (simp add: is_continuation_def Let_def split_code_point_4)
qed

lemma decode_encode_code_point:
  "encode_code_point c = Inr bs \<Longrightarrow> decode_utf8 (bs @ rest) = prepend_code_point c (decode_utf8 rest)"
  unfolding encode_code_point_def
  using decode_one_byte decode_two_bytes decode_three_bytes decode_four_bytes
  by (auto split: if_splits simp del: decode_utf8.simps)

lemma decode_encode_utf8:
  "encode_utf8 s = Inr bs \<Longrightarrow> decode_utf8 bs = Inr s"
proof (induction s arbitrary: bs)
  case Nil
  then show ?case by simp
next
  case (Cons c cs)
  then show ?case
    by (auto split: sum.splits simp: decode_encode_code_point prepend_code_point_def simp del: decode_utf8.simps)
qed

lemma encode_utf8_encodable:
  "encodable s \<Longrightarrow> encode_utf8 s = Inr (utf8 s)"
proof -
  have "list_all scalar_value s \<Longrightarrow> \<exists>bs. encode_utf8 s = Inr bs"
  proof (induction s)
    case Nil
    then show ?case by simp
  next
    case (Cons c cs)
    then show ?case using encode_code_point_scalar [of c] by auto
  qed
  then show "encodable s \<Longrightarrow> encode_utf8 s = Inr (utf8 s)"
    by (auto simp: encodable_def utf8_def)
qed

lemma encode_utf8_refused:
  "\<not> encodable s \<Longrightarrow> encode_utf8 s = Inl UnicodeEncodeError"
  unfolding encodable_def
proof (induction s)
  case Nil
  then show ?case by simp
next
  case (Cons c cs)
  show ?case
  proof (cases "scalar_value c")
    case True
    with Cons show ?thesis
      using encode_code_point_scalar [of c] by auto
  next
    case False
    then show ?thesis by (simp add: encode_code_point_refused)
  qed
qed

lemma decode_utf8_utf8: "encodable s \<Longrightarrow> decode_utf8 (utf8 s) = Inr s"
  by (simp add: decode_encode_utf8 encode_utf8_encodable)

lemma plain_message_encodable: "encodable s \<Longrightarrow> plain_message s = Inr (0 # utf8 s)"
  by (simp add: plain_message_def encode_utf8_encodable)

lemma plain_message_refused: "\<not> encodable s \<Longrightarrow> plain_message s = Inl UnicodeEncodeError"
  by (simp add: plain_message_def encode_utf8_refused)

lemma utf8_injective:
  assumes "encodable s" "encodable t" "utf8 s = utf8 t"
  shows "s = t"
proof -
  have "Inr s = decode_utf8 (utf8 s)" using assms(1) by (simp add: decode_utf8_utf8)
  also have "\<dots> = Inr t" using assms(2,3) by (simp add: decode_utf8_utf8)
  finally show ?thesis by simp
qed

lemma generate_uint64_key_encodable:
  "encodable k \<Longrightarrow>
   generate_uint64_key k = Inr (int (from_bytes_little (take 8 (sha3_256 (utf8 k)))))"
  by (simp add: generate_uint64_key_def encode_utf8_encodable)


section \<open>SHA3-256: the shape of the digest\<close>

lemma from_bytes_little_digits:
  "from_bytes_little (map (\<lambda>i. (n div 256 ^ i) mod 256) [0..<k]) = n mod 256 ^ k"
proof (induction k arbitrary: n)
  case 0
  then show ?case by simp
next
  case (Suc k)
  have "map (\<lambda>i. (n div 256 ^ i) mod 256) [0..<Suc k]
        = n mod 256 # map (\<lambda>i. ((n div 256) div 256 ^ i) mod 256) [0..<k]"
    by (simp add: map_upt_Suc div_mult2_eq del: upt_Suc)
  then have "from_bytes_little (map (\<lambda>i. (n div 256 ^ i) mod 256) [0..<Suc k])
        = n mod 256 + 256 * ((n div 256) mod 256 ^ k)"
    using Suc.IH [of "n div 256"] by simp
  also have "\<dots> = n mod 256 ^ Suc k"
    by (simp add: mod_mult2_eq)
  finally show ?case .
qed

lemma from_bytes_little_lane:
  "from_bytes_little (lane_to_bytes w) = unat w"
proof -
  have "unat w < 256 ^ 8" using unsigned_less [of w, where ?'a = nat] by simp
  then show ?thesis
    unfolding lane_to_bytes_def from_bytes_little_digits by simp
qed

lemma length_lane_to_bytes: "length (lane_to_bytes w) = 8"
  by (simp add: lane_to_bytes_def)

lemma length_keccak_round: "length (keccak_round st rc) = 25"
  by (simp add: keccak_round_def iota_def chi_def)

lemma length_keccak_f: "length st = 25 \<Longrightarrow> length (keccak_f st) = 25"
proof -
  have "length st = 25 \<Longrightarrow> length (foldl keccak_round st rcs) = 25" for rcs
    by (induction rcs arbitrary: st) (simp_all add: length_keccak_round)
  then show "length st = 25 \<Longrightarrow> length (keccak_f st) = 25"
    by (simp add: keccak_f_def)
qed

lemma length_absorb_block: "length (absorb_block st blk) = 25"
  by (simp add: absorb_block_def length_keccak_f)

lemma length_absorb: "length st = 25 \<Longrightarrow> length (absorb st p) = 25"
proof (induction st p rule: absorb.induct)
  case (1 st p)
  show ?case
  proof (cases "p = []")
    case True
    with "1.prems" show ?thesis by (simp add: absorb.simps [of st "[]"])
  next
    case False
    with "1.IH" show ?thesis by (simp add: absorb.simps [of st p] length_absorb_block)
  qed
qed

lemma sha3_256_lanes:
  "\<exists>l0 l1 l2 l3. take 4 (absorb (replicate 25 0) (pad10x1 m)) = [l0, l1, l2, l3]
     \<and> l0 = absorb (replicate 25 0) (pad10x1 m) ! 0"
proof -
  define st where "st = absorb (replicate 25 0) (pad10x1 m)"
  have "length st = 25" by (simp add: st_def length_absorb)
  then obtain l0 l1 l2 l3 rest where "st = l0 # l1 # l2 # l3 # rest"
    by (cases st; simp; (rename_tac a as, case_tac as; simp)+) 
  then show ?thesis unfolding st_def [symmetric] by simp
qed

lemma length_sha3_256: "length (sha3_256 m) = 32"
  using sha3_256_lanes [of m] by (auto simp: sha3_256_def length_lane_to_bytes)

lemma take_8_sha3_256:
  "take 8 (sha3_256 m) = lane_to_bytes (absorb (replicate 25 0) (pad10x1 m) ! 0)"
  using sha3_256_lanes [of m] by (auto simp: sha3_256_def length_lane_to_bytes)

lemma key_of_digest:
  "int (from_bytes_little (take 8 (sha3_256 m))) = uint (absorb (replicate 25 0) (pad10x1 m) ! 0)"
  by (simp add: take_8_sha3_256 from_bytes_little_lane)

section \<open>SHA3-256 of the bytes of \<^verbatim>\<open>header\<close>\<close>

text \<open>One round on an explicit state, step by step.\<close>

lemma column_parity_unfolded:
  "column_parity
    [a0, a1, a2, a3, a4,
    a5, a6, a7, a8, a9,
    a10, a11, a12, a13, a14,
    a15, a16, a17, a18, a19,
    a20, a21, a22, a23, a24] =
    [a0 XOR a5 XOR a10 XOR a15 XOR a20,
    a1 XOR a6 XOR a11 XOR a16 XOR a21,
    a2 XOR a7 XOR a12 XOR a17 XOR a22,
    a3 XOR a8 XOR a13 XOR a18 XOR a23,
    a4 XOR a9 XOR a14 XOR a19 XOR a24]"
  by (simp add: column_parity_def upt_rec)

lemma theta_effect_unfolded:
  "theta_effect [c0, c1, c2, c3, c4] =
    [c4 XOR rotl64 c1 1, c0 XOR rotl64 c2 1, c1 XOR rotl64 c3 1, c2 XOR rotl64 c4 1, c3 XOR rotl64 c0 1]"
  by (simp add: theta_effect_def upt_rec)

lemma apply_theta_unfolded:
  "apply_theta [d0, d1, d2, d3, d4]
    [a0, a1, a2, a3, a4,
    a5, a6, a7, a8, a9,
    a10, a11, a12, a13, a14,
    a15, a16, a17, a18, a19,
    a20, a21, a22, a23, a24] =
    [a0 XOR d0, a1 XOR d1, a2 XOR d2, a3 XOR d3, a4 XOR d4,
    a5 XOR d0, a6 XOR d1, a7 XOR d2, a8 XOR d3, a9 XOR d4,
    a10 XOR d0, a11 XOR d1, a12 XOR d2, a13 XOR d3, a14 XOR d4,
    a15 XOR d0, a16 XOR d1, a17 XOR d2, a18 XOR d3, a19 XOR d4,
    a20 XOR d0, a21 XOR d1, a22 XOR d2, a23 XOR d3, a24 XOR d4]"
  by (simp add: apply_theta_def upt_rec)

lemma rho_pi_unfolded:
  "rho_pi
    [a0, a1, a2, a3, a4,
    a5, a6, a7, a8, a9,
    a10, a11, a12, a13, a14,
    a15, a16, a17, a18, a19,
    a20, a21, a22, a23, a24] =
    [rotl64 a0 0, rotl64 a6 44, rotl64 a12 43, rotl64 a18 21, rotl64 a24 14,
    rotl64 a3 28, rotl64 a9 20, rotl64 a10 3, rotl64 a16 45, rotl64 a22 61,
    rotl64 a1 1, rotl64 a7 6, rotl64 a13 25, rotl64 a19 8, rotl64 a20 18,
    rotl64 a4 27, rotl64 a5 36, rotl64 a11 10, rotl64 a17 15, rotl64 a23 56,
    rotl64 a2 62, rotl64 a8 55, rotl64 a14 39, rotl64 a15 41, rotl64 a21 2]"
  by (simp add: rho_pi_def rotation_offsets_def upt_rec)

lemma chi_unfolded:
  "chi
    [a0, a1, a2, a3, a4,
    a5, a6, a7, a8, a9,
    a10, a11, a12, a13, a14,
    a15, a16, a17, a18, a19,
    a20, a21, a22, a23, a24] =
    [a0 XOR (NOT a1 AND a2), a1 XOR (NOT a2 AND a3), a2 XOR (NOT a3 AND a4),
    a3 XOR (NOT a4 AND a0), a4 XOR (NOT a0 AND a1), a5 XOR (NOT a6 AND a7),
    a6 XOR (NOT a7 AND a8), a7 XOR (NOT a8 AND a9), a8 XOR (NOT a9 AND a5),
    a9 XOR (NOT a5 AND a6), a10 XOR (NOT a11 AND a12), a11 XOR (NOT a12 AND a13),
    a12 XOR (NOT a13 AND a14), a13 XOR (NOT a14 AND a10), a14 XOR (NOT a10 AND a11),
    a15 XOR (NOT a16 AND a17), a16 XOR (NOT a17 AND a18), a17 XOR (NOT a18 AND a19),
    a18 XOR (NOT a19 AND a15), a19 XOR (NOT a15 AND a16), a20 XOR (NOT a21 AND a22),
    a21 XOR (NOT a22 AND a23), a22 XOR (NOT a23 AND a24), a23 XOR (NOT a24 AND a20),
    a24 XOR (NOT a20 AND a21)]"
  by (simp add: chi_def upt_rec)

text \<open>
  The 24 rounds on the state that holds the padded block of \<^verbatim>\<open>header\<close>, each evaluated on
  its own.
\<close>

lemma header_round_1:
  "keccak_round
    [0x0006726564616568, 0x0000000000000000, 0x0000000000000000,
    0x0000000000000000, 0x0000000000000000, 0x0000000000000000,
    0x0000000000000000, 0x0000000000000000, 0x0000000000000000,
    0x0000000000000000, 0x0000000000000000, 0x0000000000000000,
    0x0000000000000000, 0x0000000000000000, 0x0000000000000000,
    0x0000000000000000, 0x8000000000000000, 0x0000000000000000,
    0x0000000000000000, 0x0000000000000000, 0x0000000000000000,
    0x0000000000000000, 0x0000000000000000, 0x0000000000000000,
    0x0000000000000000]
    0x0000000000000001 =
    [0x0006766564616568, 0x1656800067265646, 0x3932B630B2B40003,
    0x0004404544416568, 0x2F623230B1B21205, 0x0000000000000000,
    0x60019C2C634CAC4A, 0x1000000000000008, 0x2CAD1000CE4CAC8C,
    0x5CAC8C2CAD0000CE, 0x000CE4CAC8C2CAD0, 0x0CE4CAC8C2CAD020,
    0x0000000000040000, 0x0CE82E020A081AD0, 0x0000000000040020,
    0x4F8F83D70595C726, 0x0000001000004000, 0x19C995918595A000,
    0x5646165680002726, 0x0000000000000000, 0x4165680006726564,
    0x0000020000000000, 0x617CA19597F7F0C4, 0x2000020000000000,
    0x0019C995918595A0]"
  by (simp add: keccak_round_def theta_def iota_def column_parity_unfolded theta_effect_unfolded
      apply_theta_unfolded rho_pi_unfolded chi_unfolded rotl64_def)

lemma header_round_2:
  "keccak_round
    [0x0006766564616568, 0x1656800067265646, 0x3932B630B2B40003,
    0x0004404544416568, 0x2F623230B1B21205, 0x0000000000000000,
    0x60019C2C634CAC4A, 0x1000000000000008, 0x2CAD1000CE4CAC8C,
    0x5CAC8C2CAD0000CE, 0x000CE4CAC8C2CAD0, 0x0CE4CAC8C2CAD020,
    0x0000000000040000, 0x0CE82E020A081AD0, 0x0000000000040020,
    0x4F8F83D70595C726, 0x0000001000004000, 0x19C995918595A000,
    0x5646165680002726, 0x0000000000000000, 0x4165680006726564,
    0x0000020000000000, 0x617CA19597F7F0C4, 0x2000020000000000,
    0x0019C995918595A0]
    0x0000000000008082 =
    [0xBAA6AA24641690DC, 0xC225FCD4E9EBD110, 0xEC4867F5F8072425,
    0x6C85DEAA4FFE29E7, 0xD45D371894905A77, 0x1ECF86B31E6E5ADA,
    0x44C3387758A14771, 0xB791F55645874C1D, 0x348BD62EFEE06D5A,
    0xD6F80C648AAAAA78, 0x3752B02B0298F6C3, 0x2BD8B5E7266AE478,
    0x5361628943659B92, 0xE1EB027D8FEF064A, 0x51801D9471BF1F66,
    0xAFB3BB6F9BD53DD2, 0x4715B0377B09833A, 0x3FCB6CD08F4B82C0,
    0xCCCA771F09016FBA, 0x5992297F47B2775E, 0xFFD14CB8FD43E084,
    0xE3C54AAC8F8972F9, 0x7662776062CCE1BF, 0x856A6A2A7ABE2E0B,
    0xB7B1FE41B93AADEB]"
  by (simp add: keccak_round_def theta_def iota_def column_parity_unfolded theta_effect_unfolded
      apply_theta_unfolded rho_pi_unfolded chi_unfolded rotl64_def)

lemma header_round_3:
  "keccak_round
    [0xBAA6AA24641690DC, 0xC225FCD4E9EBD110, 0xEC4867F5F8072425,
    0x6C85DEAA4FFE29E7, 0xD45D371894905A77, 0x1ECF86B31E6E5ADA,
    0x44C3387758A14771, 0xB791F55645874C1D, 0x348BD62EFEE06D5A,
    0xD6F80C648AAAAA78, 0x3752B02B0298F6C3, 0x2BD8B5E7266AE478,
    0x5361628943659B92, 0xE1EB027D8FEF064A, 0x51801D9471BF1F66,
    0xAFB3BB6F9BD53DD2, 0x4715B0377B09833A, 0x3FCB6CD08F4B82C0,
    0xCCCA771F09016FBA, 0x5992297F47B2775E, 0xFFD14CB8FD43E084,
    0xE3C54AAC8F8972F9, 0x7662776062CCE1BF, 0x856A6A2A7ABE2E0B,
    0xB7B1FE41B93AADEB]
    0x800000000000808A =
    [0x54FF61CC146E53EC, 0x0D758279088A0C0C, 0xC226DDD46F1675C2,
    0xF52E037ABAC6F86B, 0xA7D67235D362B450, 0xDFE86F20B35DB869,
    0xD7CFF053E09308DF, 0xDFCA283AB4D421D4, 0x8C6845C5E58C9917,
    0x13E74AF2F3FC0C09, 0x0697AA87E3B58E53, 0xDDD4046B3EF043BC,
    0x1F7FA7F307B5AE14, 0x61546436B1B71D7E, 0x1202E85747F314AE,
    0x1F29FC80D18457BA, 0xE66F902B820CE7E1, 0x8B92A43B7891012A,
    0xF44A33AB23DFFA77, 0xE7B875491D09CED1, 0x852330FC3346EB5C,
    0x2B17BFEF4CF7C4D0, 0x868F085FB7AE8700, 0x331F5422D0BE2FC7,
    0x90FB10CDD04BCF01]"
  by (simp add: keccak_round_def theta_def iota_def column_parity_unfolded theta_effect_unfolded
      apply_theta_unfolded rho_pi_unfolded chi_unfolded rotl64_def)

lemma header_round_4:
  "keccak_round
    [0x54FF61CC146E53EC, 0x0D758279088A0C0C, 0xC226DDD46F1675C2,
    0xF52E037ABAC6F86B, 0xA7D67235D362B450, 0xDFE86F20B35DB869,
    0xD7CFF053E09308DF, 0xDFCA283AB4D421D4, 0x8C6845C5E58C9917,
    0x13E74AF2F3FC0C09, 0x0697AA87E3B58E53, 0xDDD4046B3EF043BC,
    0x1F7FA7F307B5AE14, 0x61546436B1B71D7E, 0x1202E85747F314AE,
    0x1F29FC80D18457BA, 0xE66F902B820CE7E1, 0x8B92A43B7891012A,
    0xF44A33AB23DFFA77, 0xE7B875491D09CED1, 0x852330FC3346EB5C,
    0x2B17BFEF4CF7C4D0, 0x868F085FB7AE8700, 0x331F5422D0BE2FC7,
    0x90FB10CDD04BCF01]
    0x8000000080008000 =
    [0x15E365D837C52756, 0x79BF7DF506436294, 0xF4D95B1B0E97692E,
    0xEFEFDE9B884A02E0, 0x43603872B53E982A, 0xADD85DAA45C55D70,
    0xFD5A37857DB6BB5C, 0x785FA6EB9FF7684E, 0x994D395F859DC92B,
    0x2E40D96A6AAA940A, 0x02852D2B10A41ED8, 0xF6BEC9EDF380BBFD,
    0xDDE7C14410927708, 0xEBA46E451C715917, 0x0FB067F2D45AA0DE,
    0xDE119DBC02354F2D, 0xA4F0DA3CA1461F62, 0x8E426AF8F11C735D,
    0x6FDEA0E11B20F9B5, 0xA1F232C1DBD539CB, 0x2EA8BF857321E0BE,
    0xB470C36C09904D4B, 0xF307127A38B43E4B, 0x7FCB4320A8F57CA9,
    0x1E10AC43B85F9B81]"
  by (simp add: keccak_round_def theta_def iota_def column_parity_unfolded theta_effect_unfolded
      apply_theta_unfolded rho_pi_unfolded chi_unfolded rotl64_def)

lemma header_round_5:
  "keccak_round
    [0x15E365D837C52756, 0x79BF7DF506436294, 0xF4D95B1B0E97692E,
    0xEFEFDE9B884A02E0, 0x43603872B53E982A, 0xADD85DAA45C55D70,
    0xFD5A37857DB6BB5C, 0x785FA6EB9FF7684E, 0x994D395F859DC92B,
    0x2E40D96A6AAA940A, 0x02852D2B10A41ED8, 0xF6BEC9EDF380BBFD,
    0xDDE7C14410927708, 0xEBA46E451C715917, 0x0FB067F2D45AA0DE,
    0xDE119DBC02354F2D, 0xA4F0DA3CA1461F62, 0x8E426AF8F11C735D,
    0x6FDEA0E11B20F9B5, 0xA1F232C1DBD539CB, 0x2EA8BF857321E0BE,
    0xB470C36C09904D4B, 0xF307127A38B43E4B, 0x7FCB4320A8F57CA9,
    0x1E10AC43B85F9B81]
    0x000000000000808B =
    [0x962669229AB78955, 0x20DC8CA2788FBFB3, 0xD1442C28D6D883A7,
    0x85F67E73EC1E2BC2, 0x4A78598206AE57E2, 0xD1098607FBA27887,
    0xDAF08B9771877195, 0x53210FC9CE2BA292, 0x545EF69ED8A6DECD,
    0xDFD93206CB9F2162, 0x90E0C3F30AEDB63F, 0x808C28FE2B9DE548,
    0x47C06E7E38BAC033, 0x7916C42FC5BFF7B0, 0x61C74082DCD89976,
    0x9009E0C982DB5BF6, 0xDE7375E7F7B74DCA, 0xE97A84D15009B793,
    0x935A2A64B6A3B3FA, 0xF29B14359734235A, 0xC319255CD88585A4,
    0xD444C72275CEA3A1, 0x34AC520954A2FA00, 0x0D4347D879C480D2,
    0x84FB33202E59E139]"
  by (simp add: keccak_round_def theta_def iota_def column_parity_unfolded theta_effect_unfolded
      apply_theta_unfolded rho_pi_unfolded chi_unfolded rotl64_def)

lemma header_round_6:
  "keccak_round
    [0x962669229AB78955, 0x20DC8CA2788FBFB3, 0xD1442C28D6D883A7,
    0x85F67E73EC1E2BC2, 0x4A78598206AE57E2, 0xD1098607FBA27887,
    0xDAF08B9771877195, 0x53210FC9CE2BA292, 0x545EF69ED8A6DECD,
    0xDFD93206CB9F2162, 0x90E0C3F30AEDB63F, 0x808C28FE2B9DE548,
    0x47C06E7E38BAC033, 0x7916C42FC5BFF7B0, 0x61C74082DCD89976,
    0x9009E0C982DB5BF6, 0xDE7375E7F7B74DCA, 0xE97A84D15009B793,
    0x935A2A64B6A3B3FA, 0xF29B14359734235A, 0xC319255CD88585A4,
    0xD444C72275CEA3A1, 0x34AC520954A2FA00, 0x0D4347D879C480D2,
    0x84FB33202E59E139]
    0x0000000080000001 =
    [0x452F9F3CBB6269EB, 0x4B982FC48554200F, 0x6316D605FDE86D6C,
    0x25912A08CB9BE4B7, 0xFA261C1DBCF1EEEC, 0xB999C90ACC981ED2,
    0x1E492B2258EB5CE4, 0xFA4BBF591D900702, 0x893AA109FDCD45AA,
    0x634E939F4137CB89, 0x288806DE1DD22EC1, 0xBEB34B0E80E00E12,
    0xD368A8209C04D28E, 0xA367ED541831CCC0, 0xDB7CCF6008EF80D2,
    0x02DC16EC8B3F7111, 0x03FCF39B22430A90, 0x93DCF58BC89770F4,
    0x3F5DC43ACB7F7B51, 0x4130DDC7980C2EF7, 0x716EB3F382341023,
    0xBC94007AFF72A483, 0x7ACDEF3759C9BD40, 0x3FFFCFA4C1A58FF5,
    0x097063B44BF72AC5]"
  by (simp add: keccak_round_def theta_def iota_def column_parity_unfolded theta_effect_unfolded
      apply_theta_unfolded rho_pi_unfolded chi_unfolded rotl64_def)

lemma header_round_7:
  "keccak_round
    [0x452F9F3CBB6269EB, 0x4B982FC48554200F, 0x6316D605FDE86D6C,
    0x25912A08CB9BE4B7, 0xFA261C1DBCF1EEEC, 0xB999C90ACC981ED2,
    0x1E492B2258EB5CE4, 0xFA4BBF591D900702, 0x893AA109FDCD45AA,
    0x634E939F4137CB89, 0x288806DE1DD22EC1, 0xBEB34B0E80E00E12,
    0xD368A8209C04D28E, 0xA367ED541831CCC0, 0xDB7CCF6008EF80D2,
    0x02DC16EC8B3F7111, 0x03FCF39B22430A90, 0x93DCF58BC89770F4,
    0x3F5DC43ACB7F7B51, 0x4130DDC7980C2EF7, 0x716EB3F382341023,
    0xBC94007AFF72A483, 0x7ACDEF3759C9BD40, 0x3FFFCFA4C1A58FF5,
    0x097063B44BF72AC5]
    0x8000000080008081 =
    [0x666A99BB2D05419B, 0x9AE134F8C7154E0C, 0x2984B48FE677BAE9,
    0x5D076EB52C943BA6, 0xF1E40C03721A5C41, 0xA2F5CF0F518844CA,
    0xD2B840C4164630F1, 0x524D03F1DEEBBC8F, 0x3BAEF06DBF1DF3E0,
    0x5F0941D53449B97A, 0x1CBB9724646675CA, 0x257CB3BFE2BC4CAC,
    0xFDF57D713C20912B, 0x4763A97AAFE2BB40, 0xF682B07D20D34E98,
    0x92F5D0F607A389A0, 0xA87A6830FD82D00E, 0x7AA592CE1F70C745,
    0x097A00D14EE4E0C5, 0x82885AE8FE6552B7, 0x0A50286A8D3F6219,
    0x9ADDDBC3CFAEF833, 0x1F31177D85F1A074, 0x6AE2A507BE0AFD06,
    0x854A5BB068D55EA1]"
  by (simp add: keccak_round_def theta_def iota_def column_parity_unfolded theta_effect_unfolded
      apply_theta_unfolded rho_pi_unfolded chi_unfolded rotl64_def)

lemma header_round_8:
  "keccak_round
    [0x666A99BB2D05419B, 0x9AE134F8C7154E0C, 0x2984B48FE677BAE9,
    0x5D076EB52C943BA6, 0xF1E40C03721A5C41, 0xA2F5CF0F518844CA,
    0xD2B840C4164630F1, 0x524D03F1DEEBBC8F, 0x3BAEF06DBF1DF3E0,
    0x5F0941D53449B97A, 0x1CBB9724646675CA, 0x257CB3BFE2BC4CAC,
    0xFDF57D713C20912B, 0x4763A97AAFE2BB40, 0xF682B07D20D34E98,
    0x92F5D0F607A389A0, 0xA87A6830FD82D00E, 0x7AA592CE1F70C745,
    0x097A00D14EE4E0C5, 0x82885AE8FE6552B7, 0x0A50286A8D3F6219,
    0x9ADDDBC3CFAEF833, 0x1F31177D85F1A074, 0x6AE2A507BE0AFD06,
    0x854A5BB068D55EA1]
    0x8000000000008009 =
    [0x4CC7C588DFB716DC, 0x35F2B35FF46BAB94, 0x6407091290EF45A7,
    0xD1469A8BE4597346, 0x8EC74079C1C01886, 0x053C91CBA0197DAB,
    0x0EE7667F5EF14FDA, 0xE81451B43CA031BD, 0x7056A5F679D0EB7D,
    0x42038AC89C078CE2, 0x3B420112F6134BB2, 0xC28C5B078B96CC23,
    0x62E606296CE6A99A, 0xD2BA800E1D2A764B, 0xB1712026CD5F3BA4,
    0xE0C18124C185E963, 0x62C5B8B825CDB18B, 0xA44339319C5DD888,
    0x05EA43F8814471E0, 0x131A6B43788846CA, 0xF820F91D7FA79703,
    0x59073CC70BE1632E, 0x088B6883EF2A0C64, 0xA2BD93E0A0AC5BAB,
    0x7722F07B86CA2F04]"
  by (simp add: keccak_round_def theta_def iota_def column_parity_unfolded theta_effect_unfolded
      apply_theta_unfolded rho_pi_unfolded chi_unfolded rotl64_def)

lemma header_round_9:
  "keccak_round
    [0x4CC7C588DFB716DC, 0x35F2B35FF46BAB94, 0x6407091290EF45A7,
    0xD1469A8BE4597346, 0x8EC74079C1C01886, 0x053C91CBA0197DAB,
    0x0EE7667F5EF14FDA, 0xE81451B43CA031BD, 0x7056A5F679D0EB7D,
    0x42038AC89C078CE2, 0x3B420112F6134BB2, 0xC28C5B078B96CC23,
    0x62E606296CE6A99A, 0xD2BA800E1D2A764B, 0xB1712026CD5F3BA4,
    0xE0C18124C185E963, 0x62C5B8B825CDB18B, 0xA44339319C5DD888,
    0x05EA43F8814471E0, 0x131A6B43788846CA, 0xF820F91D7FA79703,
    0x59073CC70BE1632E, 0x088B6883EF2A0C64, 0xA2BD93E0A0AC5BAB,
    0x7722F07B86CA2F04]
    0x000000000000008A =
    [0x5F3DA0D585AD14CB, 0x511EBBB8D55C4858, 0x8ED93A4B7B047540,
    0xF3F1456EB82EB9B5, 0xD1724C2785CF9D77, 0x88692F234E45D66A,
    0x3B01F6BF98000A7B, 0x138A266D3041402F, 0x5F3CF9FE9B717E99,
    0x1B71578D85638F5A, 0xA52781BB7A96F58B, 0xE87936CCCDE841A3,
    0xFAE687A675073EB4, 0xD0FFF8BFB5BFF082, 0x384872B69731944E,
    0xA1FDBB29EA74631C, 0x4E7BCBD88165CA0C, 0x30A0C16454C578BC,
    0x76F349F5692BF7D1, 0xD3D3DA3F83C5CB9F, 0x92C8F53F63560FC6,
    0x2E142887AB4BECD5, 0x55216DD8940A468D, 0x3EDC78DDE59E77E2,
    0xD89437D1E7816D7F]"
  by (simp add: keccak_round_def theta_def iota_def column_parity_unfolded theta_effect_unfolded
      apply_theta_unfolded rho_pi_unfolded chi_unfolded rotl64_def)

lemma header_round_10:
  "keccak_round
    [0x5F3DA0D585AD14CB, 0x511EBBB8D55C4858, 0x8ED93A4B7B047540,
    0xF3F1456EB82EB9B5, 0xD1724C2785CF9D77, 0x88692F234E45D66A,
    0x3B01F6BF98000A7B, 0x138A266D3041402F, 0x5F3CF9FE9B717E99,
    0x1B71578D85638F5A, 0xA52781BB7A96F58B, 0xE87936CCCDE841A3,
    0xFAE687A675073EB4, 0xD0FFF8BFB5BFF082, 0x384872B69731944E,
    0xA1FDBB29EA74631C, 0x4E7BCBD88165CA0C, 0x30A0C16454C578BC,
    0x76F349F5692BF7D1, 0xD3D3DA3F83C5CB9F, 0x92C8F53F63560FC6,
    0x2E142887AB4BECD5, 0x55216DD8940A468D, 0x3EDC78DDE59E77E2,
    0xD89437D1E7816D7F]
    0x0000000000000088 =
    [0xF2201D0A21605C7A, 0x27ADF7F2BD99CD52, 0xA3B69ACDB7E9E758,
    0xE7AC16944790BFB4, 0x711DC1BBC7C91A85, 0xBA101FD381B9E66F,
    0x1DCAF880EE59DE0A, 0x4163E186A29CDCC5, 0x5F541D7F3C87CEA6,
    0xDA2CA3C03305799D, 0xA9692B346275D470, 0x6C73B30ABC88D147,
    0xCCC9110C4951B894, 0x6A4FA7F908EFA2C5, 0x458702260BD8BC5B,
    0xE3192CE8FBB90DFD, 0x0B1780F357406EC6, 0x5A632826BD563EB7,
    0x69CE61D24A6CC185, 0x074C304500BC0301, 0x05328330154FCF32,
    0x2A47C8DB13DD4304, 0x62A21B4354E190BA, 0x7300D9198555E891,
    0x96AD12563AB753C0]"
  by (simp add: keccak_round_def theta_def iota_def column_parity_unfolded theta_effect_unfolded
      apply_theta_unfolded rho_pi_unfolded chi_unfolded rotl64_def)

lemma header_round_11:
  "keccak_round
    [0xF2201D0A21605C7A, 0x27ADF7F2BD99CD52, 0xA3B69ACDB7E9E758,
    0xE7AC16944790BFB4, 0x711DC1BBC7C91A85, 0xBA101FD381B9E66F,
    0x1DCAF880EE59DE0A, 0x4163E186A29CDCC5, 0x5F541D7F3C87CEA6,
    0xDA2CA3C03305799D, 0xA9692B346275D470, 0x6C73B30ABC88D147,
    0xCCC9110C4951B894, 0x6A4FA7F908EFA2C5, 0x458702260BD8BC5B,
    0xE3192CE8FBB90DFD, 0x0B1780F357406EC6, 0x5A632826BD563EB7,
    0x69CE61D24A6CC185, 0x074C304500BC0301, 0x05328330154FCF32,
    0x2A47C8DB13DD4304, 0x62A21B4354E190BA, 0x7300D9198555E891,
    0x96AD12563AB753C0]
    0x0000000080008009 =
    [0x4EEAC7EEE1F4F803, 0xD2220B742C5F09B5, 0x7F0736FB7262BCD0,
    0xACE8385B73703FF5, 0x52B977A0F01ED69C, 0xF703C01946F1DCF2,
    0xA53DF73DD0318B0D, 0xC51E161B864AB319, 0x340DC430B6B96EA5,
    0x109EAFD0B0D6F255, 0x12EB01247CCE2FF4, 0xE54F6998721121E8,
    0xAB388E2BBF0E39C4, 0xC8A976E54960B281, 0x027A07B67E1BD3B9,
    0x8F196745D5A88AD2, 0x20397172BE8B1921, 0xEF04ABEB7417B40A,
    0xBAE63B480372D8EA, 0xA15973368EF9A8DB, 0x150475CA14E3B541,
    0x5BEB9B44620191FE, 0xD60B9649DD0F9AFF, 0x8BBB8BA706652792,
    0x4064708D3286D626]"
  by (simp add: keccak_round_def theta_def iota_def column_parity_unfolded theta_effect_unfolded
      apply_theta_unfolded rho_pi_unfolded chi_unfolded rotl64_def)

lemma header_round_12:
  "keccak_round
    [0x4EEAC7EEE1F4F803, 0xD2220B742C5F09B5, 0x7F0736FB7262BCD0,
    0xACE8385B73703FF5, 0x52B977A0F01ED69C, 0xF703C01946F1DCF2,
    0xA53DF73DD0318B0D, 0xC51E161B864AB319, 0x340DC430B6B96EA5,
    0x109EAFD0B0D6F255, 0x12EB01247CCE2FF4, 0xE54F6998721121E8,
    0xAB388E2BBF0E39C4, 0xC8A976E54960B281, 0x027A07B67E1BD3B9,
    0x8F196745D5A88AD2, 0x20397172BE8B1921, 0xEF04ABEB7417B40A,
    0xBAE63B480372D8EA, 0xA15973368EF9A8DB, 0x150475CA14E3B541,
    0x5BEB9B44620191FE, 0xD60B9649DD0F9AFF, 0x8BBB8BA706652792,
    0x4064708D3286D626]
    0x000000008000000A =
    [0x1D96A45D4692798B, 0xDAE2BEFDDD4920EE, 0xF9D9ED00CCE8AF24,
    0x3F5646EBA7282723, 0x18F53B8C10A1D0BE, 0x9D286373EC26F11C,
    0x33102E8D5D391F17, 0x184C073A4FC7DA33, 0x63C8E86F241F8C36,
    0x1F25F725A291DB07, 0x269873F5E0429527, 0xBFA6AFF1F271233B,
    0xE6D80FF76D440DBB, 0x5061DE5007DF5E84, 0xD0E3C295BFE5FD99,
    0xEE695DAB6A0CB33B, 0x5B73A6441517FAE4, 0x14EC1A9390123A3C,
    0xDA639BD799675351, 0x60F176A021930AA8, 0x05F9C177E678FB42,
    0x2F07F08D8129A736, 0x70D53804ABFCA5E1, 0xC9A1C9ABF6814466,
    0x48A0972EE2F65650]"
  by (simp add: keccak_round_def theta_def iota_def column_parity_unfolded theta_effect_unfolded
      apply_theta_unfolded rho_pi_unfolded chi_unfolded rotl64_def)

lemma header_round_13:
  "keccak_round
    [0x1D96A45D4692798B, 0xDAE2BEFDDD4920EE, 0xF9D9ED00CCE8AF24,
    0x3F5646EBA7282723, 0x18F53B8C10A1D0BE, 0x9D286373EC26F11C,
    0x33102E8D5D391F17, 0x184C073A4FC7DA33, 0x63C8E86F241F8C36,
    0x1F25F725A291DB07, 0x269873F5E0429527, 0xBFA6AFF1F271233B,
    0xE6D80FF76D440DBB, 0x5061DE5007DF5E84, 0xD0E3C295BFE5FD99,
    0xEE695DAB6A0CB33B, 0x5B73A6441517FAE4, 0x14EC1A9390123A3C,
    0xDA639BD799675351, 0x60F176A021930AA8, 0x05F9C177E678FB42,
    0x2F07F08D8129A736, 0x70D53804ABFCA5E1, 0xC9A1C9ABF6814466,
    0x48A0972EE2F65650]
    0x000000008000808B =
    [0x92B8AD2EC540D118, 0x4153CBACDAA37B1B, 0x342F7ED714CE73C7,
    0xFB8EA83C722CBA13, 0x712123BFBF5A9134, 0xEB2EFF582E6A3D59,
    0x5805C1B9A323B64B, 0xCC5276352704EED8, 0x8E55F359881AFEDB,
    0xBD91E222B26A4637, 0x796E079F61095786, 0x258AC8D8E91787A1,
    0x8FCDE740CF33C287, 0xA22C2743B8429864, 0xF5D35A9BD6BC732E,
    0x5B955CF1D6A52298, 0xF5CDCE427DB5E106, 0x40350EBE626E2177,
    0x42E41C141F710652, 0x025C92D3B4BEA0F0, 0xBDE0B2442E7A8ABE,
    0x7B5ABCF8AEB77D0E, 0xE79A0EFF7958F94A, 0xAD3726AADBF31A59,
    0xD37E5447B2848577]"
  by (simp add: keccak_round_def theta_def iota_def column_parity_unfolded theta_effect_unfolded
      apply_theta_unfolded rho_pi_unfolded chi_unfolded rotl64_def)

lemma header_round_14:
  "keccak_round
    [0x92B8AD2EC540D118, 0x4153CBACDAA37B1B, 0x342F7ED714CE73C7,
    0xFB8EA83C722CBA13, 0x712123BFBF5A9134, 0xEB2EFF582E6A3D59,
    0x5805C1B9A323B64B, 0xCC5276352704EED8, 0x8E55F359881AFEDB,
    0xBD91E222B26A4637, 0x796E079F61095786, 0x258AC8D8E91787A1,
    0x8FCDE740CF33C287, 0xA22C2743B8429864, 0xF5D35A9BD6BC732E,
    0x5B955CF1D6A52298, 0xF5CDCE427DB5E106, 0x40350EBE626E2177,
    0x42E41C141F710652, 0x025C92D3B4BEA0F0, 0xBDE0B2442E7A8ABE,
    0x7B5ABCF8AEB77D0E, 0xE79A0EFF7958F94A, 0xAD3726AADBF31A59,
    0xD37E5447B2848577]
    0x800000000000008B =
    [0xCA6F12569B5DE9C0, 0x08EE69FB7A5A6AC5, 0x1DB8066CFE54B49A,
    0x1C2E7A6053117B68, 0x5999F5CBF886C934, 0x2F2822FFF7326BDD,
    0x7219162C346CAAED, 0x8DC3F709DE07DB3A, 0xDDFD57E7EC4A121A,
    0xA4B6327726E095FF, 0x044A5E4FEFC1EF46, 0xF470EF1CCF2CCFD3,
    0x1788C03122DD22EF, 0x60A0FFB7F4479FD7, 0xACF1530E8BB2D45B,
    0x5E62AEE30440FD14, 0x563D020C568C6254, 0x42B0A52196EB3D08,
    0x4FBE178BBB40E11B, 0xA8BCBA76170B53DD, 0xF58311E466B888DE,
    0x35D2E6FD4F285E3D, 0x5EE845003F25D95A, 0x781593CE966F1214,
    0xF7E7059FC613D2B1]"
  by (simp add: keccak_round_def theta_def iota_def column_parity_unfolded theta_effect_unfolded
      apply_theta_unfolded rho_pi_unfolded chi_unfolded rotl64_def)

lemma header_round_15:
  "keccak_round
    [0xCA6F12569B5DE9C0, 0x08EE69FB7A5A6AC5, 0x1DB8066CFE54B49A,
    0x1C2E7A6053117B68, 0x5999F5CBF886C934, 0x2F2822FFF7326BDD,
    0x7219162C346CAAED, 0x8DC3F709DE07DB3A, 0xDDFD57E7EC4A121A,
    0xA4B6327726E095FF, 0x044A5E4FEFC1EF46, 0xF470EF1CCF2CCFD3,
    0x1788C03122DD22EF, 0x60A0FFB7F4479FD7, 0xACF1530E8BB2D45B,
    0x5E62AEE30440FD14, 0x563D020C568C6254, 0x42B0A52196EB3D08,
    0x4FBE178BBB40E11B, 0xA8BCBA76170B53DD, 0xF58311E466B888DE,
    0x35D2E6FD4F285E3D, 0x5EE845003F25D95A, 0x781593CE966F1214,
    0xF7E7059FC613D2B1]
    0x8000000000008089 =
    [0x9EEBD778AE680410, 0xBF2641FB594A4879, 0x9CD90E1A80C157B9,
    0x0B13B25379B8A1F2, 0x1C0E7821399C151B, 0xAFF85418192CFB58,
    0x191B238A1B5AAB7D, 0x123CF980D2D32CEE, 0x690749701EA09FE3,
    0xE3C630580B2DBC17, 0x428E3DEBDB1E407E, 0x538936D327DBAA58,
    0xA88D324A6DD480A0, 0x1DCFF1739765152F, 0x4F6A8E23BCFC385A,
    0xECB0C64DAAD52220, 0x38A8F057B73C1C04, 0xEF764DE7E205D0AF,
    0x34F8AAF060278137, 0xF1FEA416193EAABC, 0xF7087638C2F33714,
    0x1EAA3C68142FCA34, 0x96702D1C79771C0B, 0xB77FBB3466D8BA61,
    0x2903DF9FF3F81A1D]"
  by (simp add: keccak_round_def theta_def iota_def column_parity_unfolded theta_effect_unfolded
      apply_theta_unfolded rho_pi_unfolded chi_unfolded rotl64_def)

lemma header_round_16:
  "keccak_round
    [0x9EEBD778AE680410, 0xBF2641FB594A4879, 0x9CD90E1A80C157B9,
    0x0B13B25379B8A1F2, 0x1C0E7821399C151B, 0xAFF85418192CFB58,
    0x191B238A1B5AAB7D, 0x123CF980D2D32CEE, 0x690749701EA09FE3,
    0xE3C630580B2DBC17, 0x428E3DEBDB1E407E, 0x538936D327DBAA58,
    0xA88D324A6DD480A0, 0x1DCFF1739765152F, 0x4F6A8E23BCFC385A,
    0xECB0C64DAAD52220, 0x38A8F057B73C1C04, 0xEF764DE7E205D0AF,
    0x34F8AAF060278137, 0xF1FEA416193EAABC, 0xF7087638C2F33714,
    0x1EAA3C68142FCA34, 0x96702D1C79771C0B, 0xB77FBB3466D8BA61,
    0x2903DF9FF3F81A1D]
    0x8000000000008003 =
    [0xD0D93B904FDF592D, 0x68FC8C5C9762306A, 0x31A4AF5C5A67F271,
    0x8E21A82EB1157F14, 0xD059470EE7BC6505, 0xEDA12544E84E2449,
    0x711F40AD8121F842, 0xA94E480C9962DAB6, 0x3B5430CAE697DDCC,
    0xD5A1807E0DE5AD74, 0x62DC08650CBD31AB, 0x4C97FD1A032E144E,
    0xFEB50FC385241C7D, 0xF81E7E674DFBC9CD, 0xE7412A3EE3A824AF,
    0x8ABE92028892B3E2, 0x314E43228EAD8F27, 0x49D9E3AA35B9EAD7,
    0x732EF466B709E30C, 0xDD78EB01BD2676C3, 0x6D79F85BAA835E81,
    0x33336F0DFE28CB73, 0x62BFF831DE2C15E1, 0xD2CE142D8E960A87,
    0xA34BE00530D4BB37]"
  by (simp add: keccak_round_def theta_def iota_def column_parity_unfolded theta_effect_unfolded
      apply_theta_unfolded rho_pi_unfolded chi_unfolded rotl64_def)

lemma header_round_17:
  "keccak_round
    [0xD0D93B904FDF592D, 0x68FC8C5C9762306A, 0x31A4AF5C5A67F271,
    0x8E21A82EB1157F14, 0xD059470EE7BC6505, 0xEDA12544E84E2449,
    0x711F40AD8121F842, 0xA94E480C9962DAB6, 0x3B5430CAE697DDCC,
    0xD5A1807E0DE5AD74, 0x62DC08650CBD31AB, 0x4C97FD1A032E144E,
    0xFEB50FC385241C7D, 0xF81E7E674DFBC9CD, 0xE7412A3EE3A824AF,
    0x8ABE92028892B3E2, 0x314E43228EAD8F27, 0x49D9E3AA35B9EAD7,
    0x732EF466B709E30C, 0xDD78EB01BD2676C3, 0x6D79F85BAA835E81,
    0x33336F0DFE28CB73, 0x62BFF831DE2C15E1, 0xD2CE142D8E960A87,
    0xA34BE00530D4BB37]
    0x8000000000008002 =
    [0x624174D700557069, 0x2F8F2158F7A50576, 0x8C8E939754E0B2B8,
    0x1F62B16D5AA1A07B, 0x9B690172A31C0AD5, 0x314E5754CFE9D853,
    0xC36385C70B36F652, 0x4AA2B03E3FF9172A, 0x1778000B9B1BA3FD,
    0x1BA59D8EBF953799, 0xB458ADCAA2640D3E, 0xD4521E224376EE09,
    0x77B317C12D101F07, 0x348C30863BF70479, 0xD66187616EAC9DC5,
    0xBAAD82261A60C450, 0x19A350F7E0FB8A2B, 0x1B9F6F646888EDBA,
    0xD9EE06CA39ACE2A3, 0x1FE4B27251B42CA9, 0xBFBEEFFA1A5A9A9E,
    0x8BA2F547E33492AC, 0x5E7832BD370AE5F9, 0x2A257172429F894D,
    0x448EC7D51052F73C]"
  by (simp add: keccak_round_def theta_def iota_def column_parity_unfolded theta_effect_unfolded
      apply_theta_unfolded rho_pi_unfolded chi_unfolded rotl64_def)

lemma header_round_18:
  "keccak_round
    [0x624174D700557069, 0x2F8F2158F7A50576, 0x8C8E939754E0B2B8,
    0x1F62B16D5AA1A07B, 0x9B690172A31C0AD5, 0x314E5754CFE9D853,
    0xC36385C70B36F652, 0x4AA2B03E3FF9172A, 0x1778000B9B1BA3FD,
    0x1BA59D8EBF953799, 0xB458ADCAA2640D3E, 0xD4521E224376EE09,
    0x77B317C12D101F07, 0x348C30863BF70479, 0xD66187616EAC9DC5,
    0xBAAD82261A60C450, 0x19A350F7E0FB8A2B, 0x1B9F6F646888EDBA,
    0xD9EE06CA39ACE2A3, 0x1FE4B27251B42CA9, 0xBFBEEFFA1A5A9A9E,
    0x8BA2F547E33492AC, 0x5E7832BD370AE5F9, 0x2A257172429F894D,
    0x448EC7D51052F73C]
    0x8000000000000080 =
    [0xBAEC06F6CFE2E822, 0x776BD8BD3BD7065C, 0xAA157097AD2BFC5E,
    0x63B8D070C966C336, 0xB9AA8AB36B3F168A, 0xA24B635C5103A8EF,
    0x4F4E52CA61D1135A, 0x6A49F75F5EA06BB1, 0x4089C42BA2005781,
    0x40CB8882B1EB801E, 0x4C7D375E76A56322, 0x9990E0AA4BF3A0CB,
    0x49E7B3B58FFE6500, 0x309120435F170F34, 0x5EED8797A20D14C3,
    0x9FDC68DA8C0461A3, 0x01AEAAAF8F6873DC, 0xB93AC4B6AAE5BB7B,
    0xCA6447251098FECD, 0xE3E752E0A44C8495, 0x6C21B8AEE2049B44,
    0x6D94545AC6568D52, 0x0B9024EC0CDB3896, 0x8548BBCC212D8663,
    0x85875192F276331D]"
  by (simp add: keccak_round_def theta_def iota_def column_parity_unfolded theta_effect_unfolded
      apply_theta_unfolded rho_pi_unfolded chi_unfolded rotl64_def)

lemma header_round_19:
  "keccak_round
    [0xBAEC06F6CFE2E822, 0x776BD8BD3BD7065C, 0xAA157097AD2BFC5E,
    0x63B8D070C966C336, 0xB9AA8AB36B3F168A, 0xA24B635C5103A8EF,
    0x4F4E52CA61D1135A, 0x6A49F75F5EA06BB1, 0x4089C42BA2005781,
    0x40CB8882B1EB801E, 0x4C7D375E76A56322, 0x9990E0AA4BF3A0CB,
    0x49E7B3B58FFE6500, 0x309120435F170F34, 0x5EED8797A20D14C3,
    0x9FDC68DA8C0461A3, 0x01AEAAAF8F6873DC, 0xB93AC4B6AAE5BB7B,
    0xCA6447251098FECD, 0xE3E752E0A44C8495, 0x6C21B8AEE2049B44,
    0x6D94545AC6568D52, 0x0B9024EC0CDB3896, 0x8548BBCC212D8663,
    0x85875192F276331D]
    0x000000000000800A =
    [0x255F287958A461B5, 0x22974BF0A58C5422, 0xC548D5A9DD33DEA5,
    0x1555E28C8E195FB9, 0x3598FF4A7F8871D1, 0x54BAF90AF13503CF,
    0x1E219A6D022D34A3, 0x12940AF7C57523D0, 0x5914238D640817B9,
    0xECE1C641C9F316B1, 0x44DEF4CC110A6B51, 0x93F2A5C7787CA207,
    0xC191D16BF330E1FB, 0x20C9108D13DF8950, 0xEB89F4C788C15B4E,
    0x0B1A96BDB1384A18, 0xC7F6D36C929CBF58, 0xCD2815C4C6E99D2A,
    0x61BC6ECE2F682CF4, 0x3A5DA92049223518, 0xD7A202777ABF6D00,
    0xDDF920869A9A4A84, 0xB062F7F39737728D, 0xE625F28A7204B827,
    0xFA1DDADF52125BDC]"
  by (simp add: keccak_round_def theta_def iota_def column_parity_unfolded theta_effect_unfolded
      apply_theta_unfolded rho_pi_unfolded chi_unfolded rotl64_def)

lemma header_round_20:
  "keccak_round
    [0x255F287958A461B5, 0x22974BF0A58C5422, 0xC548D5A9DD33DEA5,
    0x1555E28C8E195FB9, 0x3598FF4A7F8871D1, 0x54BAF90AF13503CF,
    0x1E219A6D022D34A3, 0x12940AF7C57523D0, 0x5914238D640817B9,
    0xECE1C641C9F316B1, 0x44DEF4CC110A6B51, 0x93F2A5C7787CA207,
    0xC191D16BF330E1FB, 0x20C9108D13DF8950, 0xEB89F4C788C15B4E,
    0x0B1A96BDB1384A18, 0xC7F6D36C929CBF58, 0xCD2815C4C6E99D2A,
    0x61BC6ECE2F682CF4, 0x3A5DA92049223518, 0xD7A202777ABF6D00,
    0xDDF920869A9A4A84, 0xB062F7F39737728D, 0xE625F28A7204B827,
    0xFA1DDADF52125BDC]
    0x800000008000000A =
    [0x4D598C2E52D25EC9, 0x8BDEE892DE247854, 0x53C93137D2E853ED,
    0xD55B4386830DB637, 0xFFFB663219AFB086, 0xE63858F05111872E,
    0x9E1DA59AF31C4DF6, 0xF7CA6C84D986B536, 0xAB7D3F8B4FC1B0BE,
    0x0A61DB7BE579558A, 0xBAB6072846D32487, 0x7747B5965A8F435E,
    0x57D507BB1C1C5D15, 0x79A6070BBABEFC82, 0x89D6729BFD51FD4E,
    0x0AC89731AC456CB3, 0xB453D90FC9C6C087, 0xA03A9EB82BA9B27F,
    0x84723CBA00D79121, 0x6B7B2B6EAF1339EA, 0x248836421BCE307B,
    0xA2AF335FC4C8D632, 0xACB875B1CEFDF364, 0x28E4DF067AEECE5E,
    0x0BB6AEC3975EC197]"
  by (simp add: keccak_round_def theta_def iota_def column_parity_unfolded theta_effect_unfolded
      apply_theta_unfolded rho_pi_unfolded chi_unfolded rotl64_def)

lemma header_round_21:
  "keccak_round
    [0x4D598C2E52D25EC9, 0x8BDEE892DE247854, 0x53C93137D2E853ED,
    0xD55B4386830DB637, 0xFFFB663219AFB086, 0xE63858F05111872E,
    0x9E1DA59AF31C4DF6, 0xF7CA6C84D986B536, 0xAB7D3F8B4FC1B0BE,
    0x0A61DB7BE579558A, 0xBAB6072846D32487, 0x7747B5965A8F435E,
    0x57D507BB1C1C5D15, 0x79A6070BBABEFC82, 0x89D6729BFD51FD4E,
    0x0AC89731AC456CB3, 0xB453D90FC9C6C087, 0xA03A9EB82BA9B27F,
    0x84723CBA00D79121, 0x6B7B2B6EAF1339EA, 0x248836421BCE307B,
    0xA2AF335FC4C8D632, 0xACB875B1CEFDF364, 0x28E4DF067AEECE5E,
    0x0BB6AEC3975EC197]
    0x8000000080008081 =
    [0x2B0849C11E4AFF44, 0x899F51E34B198A5E, 0x07F138A48984B891,
    0x21904CD0674A4C87, 0xB44B8BBAA8FD77FB, 0x8230EECD8020D627,
    0x6C2048FA92CCFF3A, 0xF776661C17D2614A, 0x12B2CEA53911BFA5,
    0xFD5DAAD34F575AA0, 0x1DE5E02980BC58EE, 0x64D30BECC6A7EB0F,
    0xCCF71B14537FE105, 0xD2167F67FF7BD6B5, 0x0495525E2958E6F4,
    0x3B829BB551121E1C, 0xC29B5CF3ACB1F01F, 0xC7FAD30955CD6A19,
    0xD4812CC6CC6BC13F, 0x35F6D2FADD7A3CD5, 0x486E2481A9311A59,
    0xE2A69D5C3A971984, 0x12C9372CFF0D9D0E, 0xAABB3D7D57F032D3,
    0x8CD41E6B5A3C29C1]"
  by (simp add: keccak_round_def theta_def iota_def column_parity_unfolded theta_effect_unfolded
      apply_theta_unfolded rho_pi_unfolded chi_unfolded rotl64_def)

lemma header_round_22:
  "keccak_round
    [0x2B0849C11E4AFF44, 0x899F51E34B198A5E, 0x07F138A48984B891,
    0x21904CD0674A4C87, 0xB44B8BBAA8FD77FB, 0x8230EECD8020D627,
    0x6C2048FA92CCFF3A, 0xF776661C17D2614A, 0x12B2CEA53911BFA5,
    0xFD5DAAD34F575AA0, 0x1DE5E02980BC58EE, 0x64D30BECC6A7EB0F,
    0xCCF71B14537FE105, 0xD2167F67FF7BD6B5, 0x0495525E2958E6F4,
    0x3B829BB551121E1C, 0xC29B5CF3ACB1F01F, 0xC7FAD30955CD6A19,
    0xD4812CC6CC6BC13F, 0x35F6D2FADD7A3CD5, 0x486E2481A9311A59,
    0xE2A69D5C3A971984, 0x12C9372CFF0D9D0E, 0xAABB3D7D57F032D3,
    0x8CD41E6B5A3C29C1]
    0x8000000000008080 =
    [0x5D8A50D6D5D62ADE, 0xA1711AFB4F0D8BBA, 0xE1487094DD88823A,
    0xDD650DF6706E982E, 0x60EC6C526F23F6CE, 0x4318EA731B180585,
    0xC5DB92475452D319, 0x4F8FECD6DD0285E4, 0xAB449AA6AEE61192,
    0x1533A7A0E4C30ACB, 0x78572780C7FEEC0A, 0x95530518D46F817E,
    0x20167FDC93AAEDD3, 0x93DE656A6B713F2F, 0xF0C3C88E940FEAE0,
    0x86FCEA7C892934B9, 0xDBCE37921BA551F7, 0x97E994BEA42501C5,
    0xEED594E75D8728E2, 0x5CA8AE60FAA53904, 0xA64BCAA9D168FAEC,
    0x959B59193166CCF6, 0xC4ED9F6EB2E5E904, 0x3E71C998102D5C94,
    0xD5C0887C6EC1CF7D]"
  by (simp add: keccak_round_def theta_def iota_def column_parity_unfolded theta_effect_unfolded
      apply_theta_unfolded rho_pi_unfolded chi_unfolded rotl64_def)

lemma header_round_23:
  "keccak_round
    [0x5D8A50D6D5D62ADE, 0xA1711AFB4F0D8BBA, 0xE1487094DD88823A,
    0xDD650DF6706E982E, 0x60EC6C526F23F6CE, 0x4318EA731B180585,
    0xC5DB92475452D319, 0x4F8FECD6DD0285E4, 0xAB449AA6AEE61192,
    0x1533A7A0E4C30ACB, 0x78572780C7FEEC0A, 0x95530518D46F817E,
    0x20167FDC93AAEDD3, 0x93DE656A6B713F2F, 0xF0C3C88E940FEAE0,
    0x86FCEA7C892934B9, 0xDBCE37921BA551F7, 0x97E994BEA42501C5,
    0xEED594E75D8728E2, 0x5CA8AE60FAA53904, 0xA64BCAA9D168FAEC,
    0x959B59193166CCF6, 0xC4ED9F6EB2E5E904, 0x3E71C998102D5C94,
    0xD5C0887C6EC1CF7D]
    0x0000000080000001 =
    [0xEEE19FC155BA07EB, 0x31A183952F3699EE, 0xE3402EA86B33C62E,
    0xE5985CFCF2DE3DE6, 0x862E0D1C2FA4BB1B, 0xD5AD956DBD11ABDF,
    0xB072A72FE12908D5, 0x1BC4A5E5283C2C78, 0x172C55664A5E62D7,
    0x626CA659569C6502, 0xF3B3EE658955C547, 0xB11C9CB215D114C6,
    0x6BF30DEFFDABD397, 0x0F7A6E8834B9EBA3, 0xA25E54845BA76D38,
    0xB10D854966ED9CE5, 0xA35AC2838318B49C, 0x49D3D2786DA5D724,
    0x8D89C9A8E821A439, 0x66A906691692DA9F, 0x411CF16C983705CD,
    0xB39505D7148E8AF9, 0x7E19C6B4B3C305CA, 0x84AF1BE7B23287D0,
    0x932BDD41ABD7198D]"
  by (simp add: keccak_round_def theta_def iota_def column_parity_unfolded theta_effect_unfolded
      apply_theta_unfolded rho_pi_unfolded chi_unfolded rotl64_def)

lemma header_round_24:
  "keccak_round
    [0xEEE19FC155BA07EB, 0x31A183952F3699EE, 0xE3402EA86B33C62E,
    0xE5985CFCF2DE3DE6, 0x862E0D1C2FA4BB1B, 0xD5AD956DBD11ABDF,
    0xB072A72FE12908D5, 0x1BC4A5E5283C2C78, 0x172C55664A5E62D7,
    0x626CA659569C6502, 0xF3B3EE658955C547, 0xB11C9CB215D114C6,
    0x6BF30DEFFDABD397, 0x0F7A6E8834B9EBA3, 0xA25E54845BA76D38,
    0xB10D854966ED9CE5, 0xA35AC2838318B49C, 0x49D3D2786DA5D724,
    0x8D89C9A8E821A439, 0x66A906691692DA9F, 0x411CF16C983705CD,
    0xB39505D7148E8AF9, 0x7E19C6B4B3C305CA, 0x84AF1BE7B23287D0,
    0x932BDD41ABD7198D]
    0x8000000080008008 =
    [0xAD6D8491D21180E5, 0xC26D36FA9F187AFA, 0xA276D51901504468,
    0x4FB8EFE5AE68C16A, 0x10F148E33AB0FE97, 0x1AFA836EB3619A54,
    0x1FC9F5A8A2FE1C04, 0x85C1A18671DF9220, 0x3A519B596ED673D7,
    0x93F876FB66E7B797, 0xEAFBF00B30BECDDE, 0x116C608C2C4A4575,
    0x4AB38FC1DD8B7F62, 0x9C9AEFF411A86737, 0xA9F27DC0077ACA28,
    0xC63E3E4B30D3D4CC, 0xE4E70B12421033CA, 0xBCA2212D9A030F8E,
    0x25F7D6F281355841, 0xB9C7EF4019C9678F, 0x6AA166C372AF9499,
    0xC2D8D2C36F94A4B6, 0xE20D798BBDE0836D, 0x4F93C4C7E4FF34C3,
    0x8D48D79925BEB3D3]"
  by (simp add: keccak_round_def theta_def iota_def column_parity_unfolded theta_effect_unfolded
      apply_theta_unfolded rho_pi_unfolded chi_unfolded rotl64_def)

lemma header_keccak_f:
  "keccak_f
    [0x0006726564616568, 0x0000000000000000, 0x0000000000000000,
    0x0000000000000000, 0x0000000000000000, 0x0000000000000000,
    0x0000000000000000, 0x0000000000000000, 0x0000000000000000,
    0x0000000000000000, 0x0000000000000000, 0x0000000000000000,
    0x0000000000000000, 0x0000000000000000, 0x0000000000000000,
    0x0000000000000000, 0x8000000000000000, 0x0000000000000000,
    0x0000000000000000, 0x0000000000000000, 0x0000000000000000,
    0x0000000000000000, 0x0000000000000000, 0x0000000000000000,
    0x0000000000000000] =
    [0xAD6D8491D21180E5, 0xC26D36FA9F187AFA, 0xA276D51901504468,
    0x4FB8EFE5AE68C16A, 0x10F148E33AB0FE97, 0x1AFA836EB3619A54,
    0x1FC9F5A8A2FE1C04, 0x85C1A18671DF9220, 0x3A519B596ED673D7,
    0x93F876FB66E7B797, 0xEAFBF00B30BECDDE, 0x116C608C2C4A4575,
    0x4AB38FC1DD8B7F62, 0x9C9AEFF411A86737, 0xA9F27DC0077ACA28,
    0xC63E3E4B30D3D4CC, 0xE4E70B12421033CA, 0xBCA2212D9A030F8E,
    0x25F7D6F281355841, 0xB9C7EF4019C9678F, 0x6AA166C372AF9499,
    0xC2D8D2C36F94A4B6, 0xE20D798BBDE0836D, 0x4F93C4C7E4FF34C3,
    0x8D48D79925BEB3D3]"
  by (simp add: keccak_f_def round_constants_def
      header_round_1 header_round_2 header_round_3 header_round_4 header_round_5 header_round_6
      header_round_7 header_round_8 header_round_9 header_round_10 header_round_11 header_round_12
      header_round_13 header_round_14 header_round_15 header_round_16 header_round_17 header_round_18
      header_round_19 header_round_20 header_round_21 header_round_22 header_round_23 header_round_24)

lemma replicate_128_zero:
  "replicate 128 (0::nat) =
    [0, 0, 0, 0, 0, 0, 0, 0, 0, 0, 0, 0, 0, 0, 0, 0,
    0, 0, 0, 0, 0, 0, 0, 0, 0, 0, 0, 0, 0, 0, 0, 0,
    0, 0, 0, 0, 0, 0, 0, 0, 0, 0, 0, 0, 0, 0, 0, 0,
    0, 0, 0, 0, 0, 0, 0, 0, 0, 0, 0, 0, 0, 0, 0, 0,
    0, 0, 0, 0, 0, 0, 0, 0, 0, 0, 0, 0, 0, 0, 0, 0,
    0, 0, 0, 0, 0, 0, 0, 0, 0, 0, 0, 0, 0, 0, 0, 0,
    0, 0, 0, 0, 0, 0, 0, 0, 0, 0, 0, 0, 0, 0, 0, 0,
    0, 0, 0, 0, 0, 0, 0, 0, 0, 0, 0, 0, 0, 0, 0, 0]"
  by (simp add: eval_nat_numeral)

lemma header_pad10x1:
  "pad10x1 [104, 101, 97, 100, 101, 114] =
    [104, 101, 97, 100, 101, 114, 6, 0, 0, 0, 0, 0, 0, 0, 0, 0,
    0, 0, 0, 0, 0, 0, 0, 0, 0, 0, 0, 0, 0, 0, 0, 0,
    0, 0, 0, 0, 0, 0, 0, 0, 0, 0, 0, 0, 0, 0, 0, 0,
    0, 0, 0, 0, 0, 0, 0, 0, 0, 0, 0, 0, 0, 0, 0, 0,
    0, 0, 0, 0, 0, 0, 0, 0, 0, 0, 0, 0, 0, 0, 0, 0,
    0, 0, 0, 0, 0, 0, 0, 0, 0, 0, 0, 0, 0, 0, 0, 0,
    0, 0, 0, 0, 0, 0, 0, 0, 0, 0, 0, 0, 0, 0, 0, 0,
    0, 0, 0, 0, 0, 0, 0, 0, 0, 0, 0, 0, 0, 0, 0, 0,
    0, 0, 0, 0, 0, 0, 0, 128]"
  by (simp add: pad10x1_def replicate_128_zero)

lemma header_absorb_block:
  "absorb_block (replicate 25 0)
    [104, 101, 97, 100, 101, 114, 6, 0, 0, 0, 0, 0, 0, 0, 0, 0,
    0, 0, 0, 0, 0, 0, 0, 0, 0, 0, 0, 0, 0, 0, 0, 0,
    0, 0, 0, 0, 0, 0, 0, 0, 0, 0, 0, 0, 0, 0, 0, 0,
    0, 0, 0, 0, 0, 0, 0, 0, 0, 0, 0, 0, 0, 0, 0, 0,
    0, 0, 0, 0, 0, 0, 0, 0, 0, 0, 0, 0, 0, 0, 0, 0,
    0, 0, 0, 0, 0, 0, 0, 0, 0, 0, 0, 0, 0, 0, 0, 0,
    0, 0, 0, 0, 0, 0, 0, 0, 0, 0, 0, 0, 0, 0, 0, 0,
    0, 0, 0, 0, 0, 0, 0, 0, 0, 0, 0, 0, 0, 0, 0, 0,
    0, 0, 0, 0, 0, 0, 0, 128] =
    [0xAD6D8491D21180E5, 0xC26D36FA9F187AFA, 0xA276D51901504468,
    0x4FB8EFE5AE68C16A, 0x10F148E33AB0FE97, 0x1AFA836EB3619A54,
    0x1FC9F5A8A2FE1C04, 0x85C1A18671DF9220, 0x3A519B596ED673D7,
    0x93F876FB66E7B797, 0xEAFBF00B30BECDDE, 0x116C608C2C4A4575,
    0x4AB38FC1DD8B7F62, 0x9C9AEFF411A86737, 0xA9F27DC0077ACA28,
    0xC63E3E4B30D3D4CC, 0xE4E70B12421033CA, 0xBCA2212D9A030F8E,
    0x25F7D6F281355841, 0xB9C7EF4019C9678F, 0x6AA166C372AF9499,
    0xC2D8D2C36F94A4B6, 0xE20D798BBDE0836D, 0x4F93C4C7E4FF34C3,
    0x8D48D79925BEB3D3]"
  by (simp add: absorb_block_def upt_rec header_keccak_f)

lemma header_absorb:
  "absorb (replicate 25 0) (pad10x1 [104, 101, 97, 100, 101, 114]) =
    [0xAD6D8491D21180E5, 0xC26D36FA9F187AFA, 0xA276D51901504468,
    0x4FB8EFE5AE68C16A, 0x10F148E33AB0FE97, 0x1AFA836EB3619A54,
    0x1FC9F5A8A2FE1C04, 0x85C1A18671DF9220, 0x3A519B596ED673D7,
    0x93F876FB66E7B797, 0xEAFBF00B30BECDDE, 0x116C608C2C4A4575,
    0x4AB38FC1DD8B7F62, 0x9C9AEFF411A86737, 0xA9F27DC0077ACA28,
    0xC63E3E4B30D3D4CC, 0xE4E70B12421033CA, 0xBCA2212D9A030F8E,
    0x25F7D6F281355841, 0xB9C7EF4019C9678F, 0x6AA166C372AF9499,
    0xC2D8D2C36F94A4B6, 0xE20D798BBDE0836D, 0x4F93C4C7E4FF34C3,
    0x8D48D79925BEB3D3]"
  by (simp add: header_pad10x1 absorb.simps [of _ "_ # _"] absorb.simps [of _ "[]"]
      header_absorb_block)

lemma header_sha3_256:
  "sha3_256 [104, 101, 97, 100, 101, 114] =
    [0xE5, 0x80, 0x11, 0xD2, 0x91, 0x84, 0x6D, 0xAD,
    0xFA, 0x7A, 0x18, 0x9F, 0xFA, 0x36, 0x6D, 0xC2,
    0x68, 0x44, 0x50, 0x01, 0x19, 0xD5, 0x76, 0xA2,
    0x6A, 0xC1, 0x68, 0xAE, 0xE5, 0xEF, 0xB8, 0x4F]"
  by (simp add: sha3_256_def header_absorb lane_to_bytes_def upt_rec)

lemma header_text: "text_of ''header'' = [104, 101, 97, 100, 101, 114]"
  by (simp add: text_of_def)

lemma header_encodable: "encodable (text_of ''header'')"
  by (simp add: header_text encodable_def scalar_value_def is_surrogate_def)

lemma header_utf8: "utf8 (text_of ''header'') = [104, 101, 97, 100, 101, 114]"
  by (simp add: header_text utf8_def encode_code_point_def)

lemma header_key: "generate_uint64_key (text_of ''header'') = Inr 0xAD6D8491D21180E5"
  by (simp add: generate_uint64_key_encodable header_encodable header_utf8 header_sha3_256)

text \<open>
  Claim C4. \<^verbatim>\<open>generate_uint64_key\<close> depends on its input alone (it is a function: no clock,
  no state, no node). For every input that UTF-8 can carry it is the SHA3-256 digest of the
  UTF-8 bytes, 32 bytes long, of which the first eight are read as a little-endian number
  below \<open>2 ^ 64\<close> (lane 0 of the final sponge state). The string \<^verbatim>\<open>header\<close> gives
  \<^verbatim>\<open>AD6D8491D21180E5\<close>, the key the source documents.
\<close>

theorem generate_uint64_key_digest:
  "generate_uint64_key (text_of ''header'') = Inr 0xAD6D8491D21180E5
   \<and> (\<forall>input. encodable input \<longrightarrow>
         encode_utf8 input = Inr (utf8 input)
         \<and> length (sha3_256 (utf8 input)) = 32
         \<and> generate_uint64_key input
             = Inr (int (from_bytes_little (take 8 (sha3_256 (utf8 input)))))
         \<and> generate_uint64_key input
             = Inr (uint (absorb (replicate 25 0) (pad10x1 (utf8 input)) ! 0))
         \<and> (\<exists>k. generate_uint64_key input = Inr k \<and> 0 \<le> k \<and> k < 2 ^ 64))"
proof -
  have "\<exists>k. generate_uint64_key input = Inr k \<and> 0 \<le> k \<and> k < 2 ^ 64"
    if "encodable input" for input
  proof -
    have "uint (absorb (replicate 25 0) (pad10x1 (utf8 input)) ! 0) < 2 ^ 64"
      using uint_bounded [of "absorb (replicate 25 0) (pad10x1 (utf8 input)) ! 0"] by simp
    then show ?thesis
      using that by (simp add: generate_uint64_key_encodable key_of_digest)
  qed
  then show ?thesis
    by (simp add: header_key encode_utf8_encodable length_sha3_256 generate_uint64_key_encodable
        key_of_digest)
qed

theorem generate_uint64_key_digest_witness:
  "encodable (text_of ''header'')
   \<and> length (sha3_256 (utf8 (text_of ''header''))) = 32
   \<and> generate_uint64_key (text_of ''header'')
       = Inr (int (from_bytes_little (take 8 (sha3_256 (utf8 (text_of ''header''))))))
   \<and> generate_uint64_key (text_of ''header'') = Inr 0xAD6D8491D21180E5"
  using generate_uint64_key_digest header_encodable by blast


section \<open>The deadline across a change of the local clock\<close>

lemma demo_creator_fields:
  "expiration_hour demo_creator = 2" "epoch_adjustment demo_creator = 1637848847"
  "max_fee demo_creator = 2000000" "facade demo_creator = demo_facade"
  by (simp_all add: demo_creator_def)

lemma host_in_fields:
  "localtime (host_in zone) = zone" "c_mktime (host_in zone) = (\<lambda>wall. Some (local_to_seconds zone wall))"
  by (simp_all add: host_in_def)

lemma whole_second_double:
  "nearest_double 0 1000000 = (0, 0)"
  by (simp add: nearest_double_def)

lemma new_york_autumn:
  "today (host_in new_york) 1699162200000000 = Inr (1699147800, 0)"
  "add_hours 1699147800 2 = Inr 1699155000"
  "local_to_seconds new_york 1699155000 = 1699173000"
  by (simp_all add: today_def add_hours_def local_to_seconds_def new_york_def host_in_fields
      datetime_min_def datetime_max_def Let_def)

lemma new_york_spring:
  "today (host_in new_york) 1710050399000000 = Inr (1710032399, 0)"
  "add_hours 1710032399 2 = Inr 1710039599"
  "local_to_seconds new_york 1710039599 = 1710057599"
  "today (host_in new_york) 1710050400000000 = Inr (1710032400, 0)"
  "add_hours 1710032400 2 = Inr 1710039600"
  "local_to_seconds new_york 1710039600 = 1710054000"
  by (simp_all add: today_def add_hours_def local_to_seconds_def new_york_def host_in_fields
      datetime_min_def datetime_max_def Let_def)

lemma whole_seconds_read:
  "int_of_double (double_add_int 1699173000 (0, 0)) = 1699173000"
  "int_of_double (double_add_int 1710057599 (0, 0)) = 1710057599"
  "int_of_double (double_add_int 1710054000 (0, 0)) = 1710054000"
  by (simp_all add: int_of_double_def double_add_int_def nearest_double_def floor_log2_def
      round_half_even_def bit_length.simps Let_def)

lemma new_york_deadlines:
  "get_deadline demo_creator (host_in new_york) 1699162200000000 = Inr 61324153000"
  "get_deadline demo_creator (host_in new_york) 1710050399000000 = Inr 72208752000"
  "get_deadline demo_creator (host_in new_york) 1710050400000000 = Inr 72205153000"
  by (simp_all add: get_deadline_def new_york_autumn new_york_spring timestamp_def
      whole_second_double whole_seconds_read demo_creator_fields host_in_fields)

text \<open>
  Claim C1 says that the deadline is
  \<open>(now_seconds + expiration_hours * 3600 - epoch_adjustment) * 1000\<close> and increases strictly
  with \<open>now_seconds\<close>. The code adds the hours to the naive local time and reads the sum back
  in the local zone, so it misses the formula when the local clock changes in between.

  On a host in the zone of New York, with two hours of expiration and the epoch adjustment
  1637848847: at 2023-11-05 05:30:00 UTC (01:30 local, half an hour before the clocks go
  back) the deadline is 61324153000, three hours ahead, where the formula gives 61320553000.
  At 2024-03-10 05:59:59 UTC the deadline is 72208752000 and one second later it is
  72205153000: the clock advances and the deadline falls by 3599 seconds.
\<close>

theorem deadline_across_clock_change:
  "get_deadline demo_creator (host_in new_york) 1699162200000000 = Inr 61324153000
   \<and> (1699162200000000 div 1000000 + expiration_hour demo_creator * 3600
        - epoch_adjustment demo_creator) * 1000 = 61320553000
   \<and> mosaic_supply_change_descriptor demo_creator (host_in new_york) 1699162200000000 9
        0x251208ED3D0ABC84 1000
       = Inr (MosaicSupplyChangeTransaction 9 61324153000 2000000 0x251208ED3D0ABC84 1000
               INCREASE)
   \<and> get_deadline demo_creator (host_in new_york) 1710050399000000 = Inr 72208752000
   \<and> get_deadline demo_creator (host_in new_york) 1710050400000000 = Inr 72205153000
   \<and> (1710050399000000 :: int) div 1000000 < 1710050400000000 div 1000000"
  by (simp add: new_york_deadlines mosaic_supply_change_descriptor_def Amount_def BaseValue_def
      demo_creator_fields)


section \<open>The builders: what each hands to the factory\<close>

lemma library_Inr: "library r = Inr x \<longleftrightarrow> r = Inr x"
  by (cases r) (simp_all add: library_def)

lemma library_no_exception: "library r \<noteq> Inl (Exception m)"
  by (cases r) (simp_all add: library_def)



lemma create_mosaic_definition_transaction_made:
  "create_mosaic_definition_transaction self h now nonce_now signer dv du t s r v = Inr tx \<longleftrightarrow>
   (\<exists>d. mosaic_definition_descriptor self h now nonce_now signer dv du t s r v = Inr d
        \<and> transaction_factory_create (facade self) d = Inr tx)"
  by (auto simp: create_mosaic_definition_transaction_def library_Inr split: sum.splits)

lemma create_mosaic_supply_change_transaction_made:
  "create_mosaic_supply_change_transaction self h now signer mid units = Inr tx \<longleftrightarrow>
   (\<exists>d. mosaic_supply_change_descriptor self h now signer mid units = Inr d
        \<and> transaction_factory_create (facade self) d = Inr tx)"
  by (auto simp: create_mosaic_supply_change_transaction_def library_Inr split: sum.splits)

lemma create_mosaic_metadata_transaction_made:
  "create_mosaic_metadata_transaction self h now signer addr mid k v = Inr tx \<longleftrightarrow>
   (\<exists>d. mosaic_metadata_descriptor self h now signer addr mid k v = Inr d
        \<and> transaction_factory_create (facade self) d = Inr tx)"
  by (auto simp: create_mosaic_metadata_transaction_def library_Inr split: sum.splits)

lemma plain_message_Inr:
  "plain_message s = Inr m \<longleftrightarrow> encodable s \<and> m = 0 # utf8 s"
proof (cases "encodable s")
  case True
  then show ?thesis by (auto simp: plain_message_encodable)
next
  case False
  then show ?thesis by (simp add: plain_message_refused)
qed

lemma generate_uint64_key_Inr:
  "generate_uint64_key k = Inr key \<Longrightarrow> encodable k"
proof (rule ccontr)
  assume "generate_uint64_key k = Inr key" and "\<not> encodable k"
  then show False by (simp add: generate_uint64_key_def encode_utf8_refused)
qed


lemma embedded_transfer_descriptor_Inr:
  "embedded_transfer_descriptor signer recipient ms s = Inr d \<longleftrightarrow>
   encodable s \<and> d = EmbeddedTransferTransaction signer recipient ms (0 # utf8 s)"
  by (auto simp: embedded_transfer_descriptor_def plain_message_Inr plain_message_encodable
      split: sum.splits)

lemma inner_transfer_transactions_Inr:
  "inner_transfer_transactions f signer recipient ms msgs acc = Inr txs \<Longrightarrow>
   \<exists>made. txs = acc @ made
     \<and> list_all2 (\<lambda>msg inner. encodable msg
          \<and> transaction_factory_create_embedded f
                (EmbeddedTransferTransaction signer recipient ms (0 # utf8 msg)) = Inr inner)
          msgs made"
proof (induction msgs arbitrary: acc)
  case Nil
  then show ?case by simp
next
  case (Cons msg rest)
  from Cons.prems obtain d inner where
    d: "embedded_transfer_descriptor signer recipient ms msg = Inr d"
    and i: "transaction_factory_create_embedded f d = Inr inner"
    and r: "inner_transfer_transactions f signer recipient ms rest (acc @ [inner]) = Inr txs"
    by (auto simp: library_Inr split: sum.splits)
  from Cons.IH [OF r] obtain made where
    m: "txs = (acc @ [inner]) @ made"
    and a: "list_all2 (\<lambda>msg inner. encodable msg
          \<and> transaction_factory_create_embedded f
                (EmbeddedTransferTransaction signer recipient ms (0 # utf8 msg)) = Inr inner)
          rest made"
    by blast
  from d i have "encodable msg
      \<and> transaction_factory_create_embedded f
            (EmbeddedTransferTransaction signer recipient ms (0 # utf8 msg)) = Inr inner"
    by (simp add: embedded_transfer_descriptor_Inr)
  with a m show ?case
    by (intro exI [of _ "inner # made"]) simp
qed

lemma aggregate_transfer_descriptor_Inr:
  "aggregate_transfer_descriptor self h now signer recipient ms msgs = Inr d \<Longrightarrow>
   \<exists>deadline' inner_txs hash.
     get_deadline self h now = Inr deadline'
     \<and> list_all2 (\<lambda>msg inner. encodable msg
          \<and> transaction_factory_create_embedded (facade self)
                (EmbeddedTransferTransaction signer recipient ms (0 # utf8 msg)) = Inr inner)
          msgs inner_txs
     \<and> hash_embedded_transactions (facade self) inner_txs = Inr hash
     \<and> d = AggregateCompleteTransaction signer (max_fee self) deadline' hash inner_txs"
proof -
  assume a: "aggregate_transfer_descriptor self h now signer recipient ms msgs = Inr d"
  then obtain deadline' inner_txs hash where
    1: "get_deadline self h now = Inr deadline'"
    and 2: "inner_transfer_transactions (facade self) signer recipient ms msgs [] = Inr inner_txs"
    and 3: "hash_embedded_transactions (facade self) inner_txs = Inr hash"
    and 4: "d = AggregateCompleteTransaction signer (max_fee self) deadline' hash inner_txs"
    by (auto simp: aggregate_transfer_descriptor_def library_Inr split: sum.splits)
  from inner_transfer_transactions_Inr [OF 2] 1 3 4 show ?thesis by auto
qed

lemma mosaic_definition_descriptor_Inr:
  "mosaic_definition_descriptor self h now nonce_now signer dv du t s r v = Inr d \<Longrightarrow>
   \<exists>deadline' nonce'.
     get_deadline self h now = Inr deadline'
     \<and> 0 \<le> du \<and> du < 2 ^ 64
     \<and> NonceGenerator_generate h nonce_now = Inr nonce' \<and> 0 \<le> nonce' \<and> nonce' < 2 ^ 32
     \<and> d = MosaicDefinitionTransaction signer deadline' (max_fee self) du nonce'
              (mosaic_flags t s r v) dv"
  by (auto simp: mosaic_definition_descriptor_def BlockDuration_def MosaicNonce_def BaseValue_def
      Let_def split: sum.splits if_splits)

lemma mosaic_supply_change_descriptor_Inr:
  "mosaic_supply_change_descriptor self h now signer mid units = Inr d \<Longrightarrow>
   \<exists>deadline'.
     get_deadline self h now = Inr deadline' \<and> 0 \<le> units \<and> units < 2 ^ 64
     \<and> d = MosaicSupplyChangeTransaction signer deadline' (max_fee self) mid units INCREASE"
  by (auto simp: mosaic_supply_change_descriptor_def Amount_def BaseValue_def
      split: sum.splits if_splits)

lemma embedded_mosaic_metadata_descriptor_Inr:
  "embedded_mosaic_metadata_descriptor signer addr mid k v = Inr d \<longleftrightarrow>
   (\<exists>key. generate_uint64_key k = Inr key \<and> encodable v
      \<and> d = EmbeddedMosaicMetadataTransaction signer addr mid key (0 # utf8 v)
               (int (length (0 # utf8 v))))"
  by (auto simp: embedded_mosaic_metadata_descriptor_def plain_message_Inr plain_message_encodable
      split: sum.splits)

lemma mosaic_metadata_descriptor_Inr:
  "mosaic_metadata_descriptor self h now signer addr mid k v = Inr d \<Longrightarrow>
   \<exists>deadline' key inner hash.
     get_deadline self h now = Inr deadline'
     \<and> generate_uint64_key k = Inr key \<and> encodable v
     \<and> transaction_factory_create_embedded (facade self)
          (EmbeddedMosaicMetadataTransaction signer addr mid key (0 # utf8 v)
             (int (length (0 # utf8 v)))) = Inr inner
     \<and> hash_embedded_transactions (facade self) [inner] = Inr hash
     \<and> d = AggregateCompleteTransaction signer (max_fee self) deadline' hash [inner]"
proof -
  assume a: "mosaic_metadata_descriptor self h now signer addr mid k v = Inr d"
  then obtain deadline' e inner hash where
    1: "get_deadline self h now = Inr deadline'"
    and 2: "embedded_mosaic_metadata_descriptor signer addr mid k v = Inr e"
    and 3: "transaction_factory_create_embedded (facade self) e = Inr inner"
    and 4: "hash_embedded_transactions (facade self) [inner] = Inr hash"
    and 5: "d = AggregateCompleteTransaction signer (max_fee self) deadline' hash [inner]"
    by (auto simp: mosaic_metadata_descriptor_def library_Inr split: sum.splits)
  from 2 obtain key where "generate_uint64_key k = Inr key" "encodable v"
    "e = EmbeddedMosaicMetadataTransaction signer addr mid key (0 # utf8 v)
           (int (length (0 # utf8 v)))"
    by (auto simp: embedded_mosaic_metadata_descriptor_Inr)
  with 1 3 4 5 show ?thesis by blast
qed


section \<open>The builder: message and value bytes\<close>

lemma utc_deadline:
  "get_deadline demo_creator (host_in utc) 1700000000000000 = Inr 62158353000"
proof -
  have 1: "today (host_in utc) 1700000000000000 = Inr (1700000000, 0)"
    by (simp add: today_def utc_def host_in_fields datetime_min_def datetime_max_def)
  have 2: "add_hours 1700000000 2 = Inr 1700007200"
    by (simp add: add_hours_def datetime_min_def datetime_max_def)
  have 3: "local_to_seconds utc 1700007200 = 1700007200"
    by (simp add: local_to_seconds_def utc_def)
  have 4: "int_of_double (double_add_int 1700007200 (0, 0)) = 1700007200"
    by (simp add: int_of_double_def double_add_int_def nearest_double_def floor_log2_def
        round_half_even_def bit_length.simps Let_def)
  show ?thesis
    by (simp add: get_deadline_def 1 2 3 4 timestamp_def whole_second_double demo_creator_fields
        host_in_fields)
qed

lemma demo_facade_fields:
  "transaction_factory_create demo_facade = (\<lambda>descriptor. Inr descriptor)"
  "transaction_factory_create_embedded demo_facade = (\<lambda>descriptor. Inr descriptor)"
  "hash_embedded_transactions demo_facade = (\<lambda>txs. Inr (of_nat (length txs)))"
  by (simp_all add: demo_facade_def)








section \<open>The builder: mosaic definition\<close>

lemma mosaic_flags_or:
  "mosaic_flags transferable supply_mutable restrictable revokable =
     (if transferable then MosaicFlags_TRANSFERABLE else 0)
     OR (if supply_mutable then MosaicFlags_SUPPLY_MUTABLE else 0)
     OR (if restrictable then MosaicFlags_RESTRICTABLE else 0)
     OR (if revokable then MosaicFlags_REVOKABLE else 0)"
  by (cases transferable; cases supply_mutable; cases restrictable; cases revokable)
     (simp_all add: mosaic_flags_def MosaicFlags_NONE_def MosaicFlags_TRANSFERABLE_def
       MosaicFlags_SUPPLY_MUTABLE_def MosaicFlags_RESTRICTABLE_def MosaicFlags_REVOKABLE_def)

lemma mosaic_flags_zero:
  "(mosaic_flags transferable supply_mutable restrictable revokable = 0)
     = (\<not> transferable \<and> \<not> supply_mutable \<and> \<not> restrictable \<and> \<not> revokable)"
  by (cases transferable; cases supply_mutable; cases restrictable; cases revokable)
     (simp_all add: mosaic_flags_def MosaicFlags_NONE_def MosaicFlags_TRANSFERABLE_def
       MosaicFlags_SUPPLY_MUTABLE_def MosaicFlags_RESTRICTABLE_def MosaicFlags_REVOKABLE_def)

lemma mosaic_flags_bits:
  "(mosaic_flags transferable supply_mutable restrictable revokable AND MosaicFlags_TRANSFERABLE
      = MosaicFlags_TRANSFERABLE) = transferable"
  "(mosaic_flags transferable supply_mutable restrictable revokable AND MosaicFlags_SUPPLY_MUTABLE
      = MosaicFlags_SUPPLY_MUTABLE) = supply_mutable"
  "(mosaic_flags transferable supply_mutable restrictable revokable AND MosaicFlags_RESTRICTABLE
      = MosaicFlags_RESTRICTABLE) = restrictable"
  "(mosaic_flags transferable supply_mutable restrictable revokable AND MosaicFlags_REVOKABLE
      = MosaicFlags_REVOKABLE) = revokable"
  by (cases transferable; cases supply_mutable; cases restrictable; cases revokable;
      simp add: mosaic_flags_def MosaicFlags_NONE_def MosaicFlags_TRANSFERABLE_def
       MosaicFlags_SUPPLY_MUTABLE_def MosaicFlags_RESTRICTABLE_def MosaicFlags_REVOKABLE_def)+

lemma mosaic_definition_descriptor_returns:
  assumes "get_deadline self h now = Inr deadline'"
    and "0 \<le> du" and "du < 2 ^ 64"
    and "NonceGenerator_generate h nonce_now = Inr nonce'"
    and "0 \<le> nonce'" and "nonce' < 2 ^ 32"
  shows "mosaic_definition_descriptor self h now nonce_now signer dv du transferable
           supply_mutable restrictable revokable
         = Inr (MosaicDefinitionTransaction signer deadline' (max_fee self) du nonce'
                 (mosaic_flags transferable supply_mutable restrictable revokable) dv)"
  using assms
  by (simp add: mosaic_definition_descriptor_def BlockDuration_def MosaicNonce_def BaseValue_def)

text \<open>
  Claim C6. The flags the program computes are the bitwise or of the constants whose
  booleans are true; they are zero exactly when all four are false; each flag's bit is set
  exactly when its own boolean is true. Whenever the builder gets as far as its descriptor,
  the descriptor is a mosaic definition with these flags and with the divisibility and the
  duration of the call; the transaction returned is what the library's factory makes of that
  descriptor. The builder gets there when the deadline and the nonce can be read, the
  duration fits 64 bits and the nonce 32.
\<close>

theorem mosaic_definition_flags:
  "mosaic_flags transferable supply_mutable restrictable revokable =
       (if transferable then MosaicFlags_TRANSFERABLE else 0)
       OR (if supply_mutable then MosaicFlags_SUPPLY_MUTABLE else 0)
       OR (if restrictable then MosaicFlags_RESTRICTABLE else 0)
       OR (if revokable then MosaicFlags_REVOKABLE else 0)
   \<and> (mosaic_flags transferable supply_mutable restrictable revokable = 0)
       = (\<not> transferable \<and> \<not> supply_mutable \<and> \<not> restrictable \<and> \<not> revokable)
   \<and> (mosaic_flags transferable supply_mutable restrictable revokable
         AND MosaicFlags_TRANSFERABLE = MosaicFlags_TRANSFERABLE) = transferable
   \<and> (mosaic_flags transferable supply_mutable restrictable revokable
         AND MosaicFlags_SUPPLY_MUTABLE = MosaicFlags_SUPPLY_MUTABLE) = supply_mutable
   \<and> (mosaic_flags transferable supply_mutable restrictable revokable
         AND MosaicFlags_RESTRICTABLE = MosaicFlags_RESTRICTABLE) = restrictable
   \<and> (mosaic_flags transferable supply_mutable restrictable revokable
         AND MosaicFlags_REVOKABLE = MosaicFlags_REVOKABLE) = revokable
   \<and> (\<forall>d. mosaic_definition_descriptor self h now nonce_now signer dv du transferable
             supply_mutable restrictable revokable = Inr d \<longrightarrow>
          is_MosaicDefinitionTransaction d
          \<and> flags d = mosaic_flags transferable supply_mutable restrictable revokable
          \<and> divisibility d = dv \<and> duration d = du)
   \<and> (\<forall>tx. create_mosaic_definition_transaction self h now nonce_now signer dv du transferable
             supply_mutable restrictable revokable = Inr tx \<longrightarrow>
          (\<exists>d. mosaic_definition_descriptor self h now nonce_now signer dv du transferable
                  supply_mutable restrictable revokable = Inr d
             \<and> transaction_factory_create (facade self) d = Inr tx
             \<and> flags d = mosaic_flags transferable supply_mutable restrictable revokable
             \<and> divisibility d = dv \<and> duration d = du))
   \<and> (\<forall>deadline' nonce'.
          get_deadline self h now = Inr deadline' \<and> 0 \<le> du \<and> du < 2 ^ 64
          \<and> NonceGenerator_generate h nonce_now = Inr nonce' \<and> 0 \<le> nonce' \<and> nonce' < 2 ^ 32
          \<longrightarrow>
          mosaic_definition_descriptor self h now nonce_now signer dv du transferable
              supply_mutable restrictable revokable
            = Inr (MosaicDefinitionTransaction signer deadline' (max_fee self) du nonce'
                    (mosaic_flags transferable supply_mutable restrictable revokable) dv))"
proof -
  have d: "\<forall>d. mosaic_definition_descriptor self h now nonce_now signer dv du transferable
             supply_mutable restrictable revokable = Inr d \<longrightarrow>
          is_MosaicDefinitionTransaction d
          \<and> flags d = mosaic_flags transferable supply_mutable restrictable revokable
          \<and> divisibility d = dv \<and> duration d = du"
  proof (intro allI impI)
    fix d
    assume "mosaic_definition_descriptor self h now nonce_now signer dv du transferable
             supply_mutable restrictable revokable = Inr d"
    from mosaic_definition_descriptor_Inr [OF this]
    show "is_MosaicDefinitionTransaction d
          \<and> flags d = mosaic_flags transferable supply_mutable restrictable revokable
          \<and> divisibility d = dv \<and> duration d = du"
      by auto
  qed
  have c: "\<forall>tx. create_mosaic_definition_transaction self h now nonce_now signer dv du
             transferable supply_mutable restrictable revokable = Inr tx \<longrightarrow>
          (\<exists>d. mosaic_definition_descriptor self h now nonce_now signer dv du transferable
                  supply_mutable restrictable revokable = Inr d
             \<and> transaction_factory_create (facade self) d = Inr tx
             \<and> flags d = mosaic_flags transferable supply_mutable restrictable revokable
             \<and> divisibility d = dv \<and> duration d = du)"
    using d by (auto simp: create_mosaic_definition_transaction_made)
  have r: "\<forall>deadline' nonce'.
          get_deadline self h now = Inr deadline' \<and> 0 \<le> du \<and> du < 2 ^ 64
          \<and> NonceGenerator_generate h nonce_now = Inr nonce' \<and> 0 \<le> nonce' \<and> nonce' < 2 ^ 32
          \<longrightarrow>
          mosaic_definition_descriptor self h now nonce_now signer dv du transferable
              supply_mutable restrictable revokable
            = Inr (MosaicDefinitionTransaction signer deadline' (max_fee self) du nonce'
                    (mosaic_flags transferable supply_mutable restrictable revokable) dv)"
    by (simp add: mosaic_definition_descriptor_returns)
  from mosaic_flags_or [of transferable supply_mutable restrictable revokable]
    mosaic_flags_zero [of transferable supply_mutable restrictable revokable]
    mosaic_flags_bits [of transferable supply_mutable restrictable revokable]
    d c r
  show ?thesis by (intro conjI)
qed

lemma utc_nonce: "NonceGenerator_generate (host_in utc) 1700000000000200 = Inr 1700000000"
  by (simp add: NonceGenerator_generate_def today_def utc_def host_in_fields datetime_min_def
      datetime_max_def local_to_seconds_def)

theorem mosaic_definition_flags_witness:
  "mosaic_flags True False True False = 6
   \<and> (\<exists>d. mosaic_definition_descriptor demo_creator (host_in utc) 1700000000000000
             1700000000000200 9 0 1000 True False True False = Inr d
         \<and> d = MosaicDefinitionTransaction 9 62158353000 2000000 1000 1700000000 6 0
         \<and> flags d = 6 \<and> divisibility d = 0 \<and> duration d = 1000)
   \<and> (\<exists>tx. create_mosaic_definition_transaction demo_creator (host_in utc) 1700000000000000
             1700000000000200 9 0 1000 True False True False = Inr tx)"
proof -
  note t = mosaic_definition_flags [of True False True False demo_creator "host_in utc"
      1700000000000000 1700000000000200 9 0 1000]
  from t have 1: "mosaic_flags True False True False = 6"
    by (simp add: MosaicFlags_TRANSFERABLE_def MosaicFlags_RESTRICTABLE_def)
  from t utc_deadline utc_nonce have
    "mosaic_definition_descriptor demo_creator (host_in utc) 1700000000000000
        1700000000000200 9 0 1000 True False True False
      = Inr (MosaicDefinitionTransaction 9 62158353000 (max_fee demo_creator) 1000 1700000000
              (mosaic_flags True False True False) 0)"
    by simp
  then have 2: "mosaic_definition_descriptor demo_creator (host_in utc) 1700000000000000
        1700000000000200 9 0 1000 True False True False
      = Inr (MosaicDefinitionTransaction 9 62158353000 2000000 1000 1700000000 6 0)"
    by (simp only: 1 demo_creator_fields)
  then have 3: "\<exists>tx. create_mosaic_definition_transaction demo_creator (host_in utc)
      1700000000000000 1700000000000200 9 0 1000 True False True False = Inr tx"
    by (simp add: create_mosaic_definition_transaction_def demo_creator_fields
        demo_facade_fields library_def)
  from 1 2 3 show ?thesis by simp
qed

section \<open>The builder: mosaic metadata\<close>

lemma mosaic_metadata_descriptor_returns:
  assumes "get_deadline self h now = Inr deadline'"
    and "generate_uint64_key k = Inr key" and "encodable v"
    and "transaction_factory_create_embedded (facade self)
          (EmbeddedMosaicMetadataTransaction signer target mid key (0 # utf8 v)
             (int (length (0 # utf8 v)))) = Inr inner"
    and "hash_embedded_transactions (facade self) [inner] = Inr hash"
  shows "mosaic_metadata_descriptor self h now signer target mid k v
         = Inr (AggregateCompleteTransaction signer (max_fee self) deadline' hash [inner])"
  using assms
  by (simp add: mosaic_metadata_descriptor_def embedded_mosaic_metadata_descriptor_def
      plain_message_encodable library_def)

text \<open>
  Claim C5. Whenever the metadata builder returns, the transaction is what the library's
  factory made of an aggregate complete descriptor, never of a bare metadata descriptor. The
  aggregate holds exactly one embedded transaction, the one the factory made of an embedded
  mosaic metadata descriptor whose scoped key is \<^verbatim>\<open>generate_uint64_key\<close> of the key string,
  and its hash is the library's hash of that one transaction. The builder returns when the
  deadline can be read, key and value have a UTF-8 encoding and the library's calls return;
  it raises when one of them raises.
\<close>

theorem mosaic_metadata_is_aggregate:
  "(\<forall>tx. create_mosaic_metadata_transaction self h now signer target mid k v = Inr tx \<longrightarrow>
      (\<exists>d. mosaic_metadata_descriptor self h now signer target mid k v = Inr d
         \<and> transaction_factory_create (facade self) d = Inr tx))
   \<and> (\<forall>d. mosaic_metadata_descriptor self h now signer target mid k v = Inr d \<longrightarrow>
        is_AggregateCompleteTransaction d \<and> \<not> is_MosaicMetadataTransaction d
        \<and> length (transactions d) = 1
        \<and> (\<exists>e inner.
             embedded_mosaic_metadata_descriptor signer target mid k v = Inr e
             \<and> is_EmbeddedMosaicMetadataTransaction e
             \<and> generate_uint64_key k = Inr (embedded_scoped_metadata_key e)
             \<and> embedded_target_mosaic_id e = mid \<and> embedded_target_address e = target
             \<and> embedded_signer_public_key e = signer
             \<and> transaction_factory_create_embedded (facade self) e = Inr inner
             \<and> transactions d = [inner]
             \<and> hash_embedded_transactions (facade self) [inner] = Inr (transactions_hash d)))
   \<and> (\<forall>deadline' key inner hash tx.
        get_deadline self h now = Inr deadline'
        \<and> generate_uint64_key k = Inr key \<and> encodable v
        \<and> transaction_factory_create_embedded (facade self)
            (EmbeddedMosaicMetadataTransaction signer target mid key (0 # utf8 v)
               (int (length (0 # utf8 v)))) = Inr inner
        \<and> hash_embedded_transactions (facade self) [inner] = Inr hash
        \<and> transaction_factory_create (facade self)
            (AggregateCompleteTransaction signer (max_fee self) deadline' hash [inner]) = Inr tx
        \<longrightarrow> create_mosaic_metadata_transaction self h now signer target mid k v = Inr tx)"
proof -
  have 1: "\<forall>tx. create_mosaic_metadata_transaction self h now signer target mid k v = Inr tx \<longrightarrow>
      (\<exists>d. mosaic_metadata_descriptor self h now signer target mid k v = Inr d
         \<and> transaction_factory_create (facade self) d = Inr tx)"
    by (simp add: create_mosaic_metadata_transaction_made)
  have 2: "\<forall>d. mosaic_metadata_descriptor self h now signer target mid k v = Inr d \<longrightarrow>
        is_AggregateCompleteTransaction d \<and> \<not> is_MosaicMetadataTransaction d
        \<and> length (transactions d) = 1
        \<and> (\<exists>e inner.
             embedded_mosaic_metadata_descriptor signer target mid k v = Inr e
             \<and> is_EmbeddedMosaicMetadataTransaction e
             \<and> generate_uint64_key k = Inr (embedded_scoped_metadata_key e)
             \<and> embedded_target_mosaic_id e = mid \<and> embedded_target_address e = target
             \<and> embedded_signer_public_key e = signer
             \<and> transaction_factory_create_embedded (facade self) e = Inr inner
             \<and> transactions d = [inner]
             \<and> hash_embedded_transactions (facade self) [inner] = Inr (transactions_hash d))"
  proof (intro allI impI)
    fix d
    assume "mosaic_metadata_descriptor self h now signer target mid k v = Inr d"
    from mosaic_metadata_descriptor_Inr [OF this] obtain deadline' key inner hash where
      k: "generate_uint64_key k = Inr key" and v: "encodable v"
      and i: "transaction_factory_create_embedded (facade self)
          (EmbeddedMosaicMetadataTransaction signer target mid key (0 # utf8 v)
             (int (length (0 # utf8 v)))) = Inr inner"
      and hh: "hash_embedded_transactions (facade self) [inner] = Inr hash"
      and d: "d = AggregateCompleteTransaction signer (max_fee self) deadline' hash [inner]"
      by blast
    have e: "embedded_mosaic_metadata_descriptor signer target mid k v
        = Inr (EmbeddedMosaicMetadataTransaction signer target mid key (0 # utf8 v)
             (int (length (0 # utf8 v))))"
      using k v by (simp add: embedded_mosaic_metadata_descriptor_Inr)
    have "\<exists>e inner.
             embedded_mosaic_metadata_descriptor signer target mid k v = Inr e
             \<and> is_EmbeddedMosaicMetadataTransaction e
             \<and> generate_uint64_key k = Inr (embedded_scoped_metadata_key e)
             \<and> embedded_target_mosaic_id e = mid \<and> embedded_target_address e = target
             \<and> embedded_signer_public_key e = signer
             \<and> transaction_factory_create_embedded (facade self) e = Inr inner
             \<and> transactions d = [inner]
             \<and> hash_embedded_transactions (facade self) [inner] = Inr (transactions_hash d)"
      using e k i hh d
      by (intro exI [of _ "EmbeddedMosaicMetadataTransaction signer target mid key (0 # utf8 v)
             (int (length (0 # utf8 v)))"] exI [of _ inner]) simp
    with d show "is_AggregateCompleteTransaction d \<and> \<not> is_MosaicMetadataTransaction d
        \<and> length (transactions d) = 1
        \<and> (\<exists>e inner.
             embedded_mosaic_metadata_descriptor signer target mid k v = Inr e
             \<and> is_EmbeddedMosaicMetadataTransaction e
             \<and> generate_uint64_key k = Inr (embedded_scoped_metadata_key e)
             \<and> embedded_target_mosaic_id e = mid \<and> embedded_target_address e = target
             \<and> embedded_signer_public_key e = signer
             \<and> transaction_factory_create_embedded (facade self) e = Inr inner
             \<and> transactions d = [inner]
             \<and> hash_embedded_transactions (facade self) [inner] = Inr (transactions_hash d))"
      by simp
  qed
  have 3: "\<forall>deadline' key inner hash tx.
        get_deadline self h now = Inr deadline'
        \<and> generate_uint64_key k = Inr key \<and> encodable v
        \<and> transaction_factory_create_embedded (facade self)
            (EmbeddedMosaicMetadataTransaction signer target mid key (0 # utf8 v)
               (int (length (0 # utf8 v)))) = Inr inner
        \<and> hash_embedded_transactions (facade self) [inner] = Inr hash
        \<and> transaction_factory_create (facade self)
            (AggregateCompleteTransaction signer (max_fee self) deadline' hash [inner]) = Inr tx
        \<longrightarrow> create_mosaic_metadata_transaction self h now signer target mid k v = Inr tx"
    by (auto simp: create_mosaic_metadata_transaction_made mosaic_metadata_descriptor_returns)
  from 1 2 3 show ?thesis by (intro conjI)
qed

lemma transactionhash_text:
  "encodable (text_of ''transactionhash'')"
  "utf8 (text_of ''transactionhash'')
     = [116, 114, 97, 110, 115, 97, 99, 116, 105, 111, 110, 104, 97, 115, 104]"
  by (simp_all add: text_of_def encodable_def scalar_value_def is_surrogate_def utf8_def
      encode_code_point_def)

theorem mosaic_metadata_is_aggregate_witness:
  "create_mosaic_metadata_transaction demo_creator (host_in utc) 1700000000000000 9 ''TBCSXNJ6''
      0x251208ED3D0ABC84 (text_of ''header'') (text_of ''transactionhash'')
    = Inr (AggregateCompleteTransaction 9 2000000 62158353000 1
            [EmbeddedMosaicMetadataTransaction 9 ''TBCSXNJ6'' 0x251208ED3D0ABC84
               0xAD6D8491D21180E5
               [0, 116, 114, 97, 110, 115, 97, 99, 116, 105, 111, 110, 104, 97, 115, 104] 16])"
proof -
  note t = mosaic_metadata_is_aggregate [of demo_creator "host_in utc" 1700000000000000 9
      "''TBCSXNJ6''" "0x251208ED3D0ABC84" "text_of ''header''" "text_of ''transactionhash''"]
  have "get_deadline demo_creator (host_in utc) 1700000000000000 = Inr 62158353000
      \<and> generate_uint64_key (text_of ''header'') = Inr 0xAD6D8491D21180E5
      \<and> encodable (text_of ''transactionhash'')
      \<and> transaction_factory_create_embedded (facade demo_creator)
          (EmbeddedMosaicMetadataTransaction 9 ''TBCSXNJ6'' 0x251208ED3D0ABC84 0xAD6D8491D21180E5
             (0 # utf8 (text_of ''transactionhash''))
             (int (length (0 # utf8 (text_of ''transactionhash'')))))
         = Inr (EmbeddedMosaicMetadataTransaction 9 ''TBCSXNJ6'' 0x251208ED3D0ABC84
               0xAD6D8491D21180E5
               [0, 116, 114, 97, 110, 115, 97, 99, 116, 105, 111, 110, 104, 97, 115, 104] 16)
      \<and> hash_embedded_transactions (facade demo_creator)
          [EmbeddedMosaicMetadataTransaction 9 ''TBCSXNJ6'' 0x251208ED3D0ABC84
               0xAD6D8491D21180E5
               [0, 116, 114, 97, 110, 115, 97, 99, 116, 105, 111, 110, 104, 97, 115, 104] 16]
         = Inr 1
      \<and> transaction_factory_create (facade demo_creator)
          (AggregateCompleteTransaction 9 (max_fee demo_creator) 62158353000 1
            [EmbeddedMosaicMetadataTransaction 9 ''TBCSXNJ6'' 0x251208ED3D0ABC84
               0xAD6D8491D21180E5
               [0, 116, 114, 97, 110, 115, 97, 99, 116, 105, 111, 110, 104, 97, 115, 104] 16])
         = Inr (AggregateCompleteTransaction 9 2000000 62158353000 1
            [EmbeddedMosaicMetadataTransaction 9 ''TBCSXNJ6'' 0x251208ED3D0ABC84
               0xAD6D8491D21180E5
               [0, 116, 114, 97, 110, 115, 97, 99, 116, 105, 111, 110, 104, 97, 115, 104] 16])"
    by (simp add: utc_deadline header_key transactionhash_text demo_creator_fields
        demo_facade_fields)
  with t show ?thesis by blast
qed


end
